theory Spec2Isabelle
  imports Complex_Main
begin

section \<open>The provider and census enrichment pipeline of lake.py\<close>

text \<open>
  The script talks to four HTTP endpoints, reads the clock, prints to the console and
  writes two CSV files. The model makes every such effect an \<open>event\<close> of a trace, takes
  what the environment answers from a \<open>world\<close>, and returns every exception of the
  source as a value of \<open>error\<close>. A Python string is the list of its code points; the
  model has the strings whose code points are below 256.
\<close>

subsection \<open>Exceptions\<close>

datatype value_error =
    NoAccessToken             \<comment> \<open>\<open>ValueError("Failed to obtain access token")\<close>\<close>
  | MissingColumns "string set" \<comment> \<open>\<open>ValueError(f"Missing required columns: {...}")\<close>\<close>
  | InvalidLiteral string     \<comment> \<open>\<open>int(s)\<close> on a string that is no integer literal\<close>
  | NotEnoughValues           \<comment> \<open>unpacking \<open>zip(*[])\<close> into two names\<close>

datatype error =
    HTTPError int             \<comment> \<open>\<open>response.raise_for_status()\<close> on a 4xx or 5xx status\<close>
  | RequestException string   \<comment> \<open>\<open>requests.get\<close> or \<open>requests.post\<close> did not complete\<close>
  | JSONDecodeError           \<comment> \<open>\<open>response.json()\<close> on a body that is not JSON;
                                   in \<open>requests\<close> a subclass of \<open>RequestException\<close>\<close>
  | ValueError value_error
  | KeyError string
  | IndexError
  | TypeError                 \<comment> \<open>\<open>int(None)\<close>, \<open>time() + None\<close>\<close>
  | NameError string          \<comment> \<open>a global read before it is assigned\<close>

subsection \<open>What the environment answers\<close>

text \<open>
  An HTTP call either raises (\<open>Failed\<close>, with the message of the exception) or gives a
  response with a status code and a body; the body is \<open>None\<close> when it is not JSON, so
  that \<open>response.json()\<close> raises.
\<close>

datatype 'b reply = Failed string | Response int "'b option"

text \<open>The token endpoint's JSON object, read with \<open>.get\<close>: an absent key is \<open>None\<close>.\<close>

record token_data =
  tok_access_token :: "string option"
  tok_expires_in :: "real option"

text \<open>
  The geocoder's JSON object. \<open>status\<close> and \<open>results\<close> are \<open>None\<close> when the key is
  absent (the subscript raises \<open>KeyError\<close>); a result is \<open>None\<close> when it lacks
  \<open>geometry.location.lat/lng\<close>.
\<close>

record geo_data =
  status :: "string option"
  results :: "(real \<times> real) option list option"

text \<open>A census cell is a JSON string or \<open>null\<close>; a census body is a list of rows.\<close>

datatype jcell = JStr string | JNull

type_synonym census_row = "jcell list"

text \<open>
  A provider record is a JSON object with string values, as its (key, value) pairs;
  the body of the data endpoint holds the records under the key \<open>value\<close>
  (\<open>None\<close> when that key is absent).
\<close>

type_synonym provider_record = "(string \<times> string) list"

text \<open>
  The world also holds what the interpreter and its thread pool decide: what the
  built-in \<open>int\<close> makes of a string (\<open>None\<close> when it raises \<open>ValueError\<close>; its limits
  depend on the version and the settings of the interpreter), which worker thread of
  the pool makes the next step, and which tasks of the pool had not started when the
  others were cancelled.
\<close>

record world =
  token_post :: "nat \<Rightarrow> token_data reply"     \<comment> \<open>the answer to the k-th token request\<close>
  time_now :: "nat \<Rightarrow> real"                    \<comment> \<open>what the k-th \<open>time()\<close> returns\<close>
  data_get :: "provider_record list option reply"
  geocode_get :: "string \<Rightarrow> nat \<Rightarrow> nat \<Rightarrow> geo_data reply"
    \<comment> \<open>the answer to the request for an address, made by task i as its attempt j\<close>
  census_get :: "census_row list reply"
  strftime_now :: string                       \<comment> \<open>\<open>strftime("%Y%m%d_%H%M%S")\<close>\<close>
  int_str :: "string \<Rightarrow> int option"           \<comment> \<open>\<open>int(s)\<close> of a string\<close>
  pool_schedule :: "nat list"                  \<comment> \<open>the task that makes the next step\<close>
  pool_cancelled :: "nat \<Rightarrow> bool"              \<comment> \<open>task i had not started\<close>

text \<open>The module \<open>credentials\<close> is not part of the sources: its constants are parameters.\<close>

record credentials =
  GMAP_API_KEY :: string
  GS2Q_TOKEN_URL :: string
  GS2Q_DATA_URL :: string
  GS2Q_USERNAME :: string
  GS2Q_PASSWORD :: string
  CENSUS_API_KEY :: string
  CENSUS_URL :: string

text \<open>
  The module \<open>mi_fips_data\<close> is not part of the sources either: its table \<open>data\<close> is a
  parameter, a list of entries with the five keys the lookups read, all strings.
\<close>

record fips_entry =
  State :: string
  County_Code :: string
  County_Name :: string
  Place_Code :: string
  Place_Name :: string

subsection \<open>Data frames\<close>

text \<open>
  The provider frame, by columns as pandas keeps it: the columns of
  \<open>pd.DataFrame(provider_data)\<close> are the keys of the records in the order they first
  appear, a record without a key has \<open>NaN\<close> in that column, and the three columns the
  script adds are lists of the frame's length. A provider record that already has a key
  \<open>Full Address\<close>, \<open>Latitude\<close> or \<open>Longitude\<close> is not modelled.
\<close>

record provider_frame =
  columns :: "string list"
  records :: "provider_record list"
  Full_Address :: "string list"
  Latitude :: "real option list"
  Longitude :: "real option list"

text \<open>One dictionary of \<open>census_results\<close>; \<open>pd.DataFrame(census_results)\<close> is their list.\<close>

record census_result =
  county :: string
  city :: string
  children_0_3 :: int
  children_3_5 :: int
  children_6_11 :: int

subsection \<open>Effects\<close>

record census_params =
  p_get :: string
  p_for :: string
  p_in :: string
  p_key :: string

datatype console =
    Geocoded string real real        \<comment> \<open>\<open>Geocoded {address} -> {lat}, {lng}\<close>\<close>
  | GeocodeFailed string string      \<comment> \<open>\<open>Failed to geocode {address}: {data['status']}\<close>\<close>
  | GeocodeHTTP string int           \<comment> \<open>\<open>Failed to geocode {address}: HTTP {status_code}\<close>\<close>
  | GeocodeError string error        \<comment> \<open>\<open>Error geocoding address '{address}': {e}\<close>\<close>
  | FetchingCensus string            \<comment> \<open>\<open>Fetching data for all counties in state ...\<close>\<close>
  | ReceivedCensus "census_row list" \<comment> \<open>\<open>Received data for all counties: {data[:5]}...\<close>\<close>
  | CensusDecodeError                \<comment> \<open>\<open>Error decoding JSON: {response.text}\<close>\<close>
  | CensusStatus int                 \<comment> \<open>\<open>Error: Received status code ...\<close>\<close>
  | ProcessedCensus string string int int int \<comment> \<open>\<open>Processed data: County: ...\<close>\<close>
  | ErrorProcessing error            \<comment> \<open>\<open>Error processing data: {e}\<close>\<close>
  | Complete string                  \<comment> \<open>\<open>Data processing complete. Provider data saved to ...\<close>\<close>
  | CensusSaved string               \<comment> \<open>\<open>Census data saved to ...\<close>\<close>

datatype event =
    TokenPost string string string   \<comment> \<open>POST to the token URL with username and password\<close>
  | TimeRead                         \<comment> \<open>\<open>time()\<close>\<close>
  | DataGet string string            \<comment> \<open>GET of the data URL with \<open>Bearer\<close> token\<close>
  | GeocodeGet string string         \<comment> \<open>GET of the geocoding URL built from the quoted
                                          address and the API key, timeout 30\<close>
  | Sleep nat                        \<comment> \<open>\<open>sleep(1)\<close>\<close>
  | CensusGet string census_params   \<comment> \<open>GET of the census URL with its parameters\<close>
  | Strftime                         \<comment> \<open>\<open>strftime("%Y%m%d_%H%M%S")\<close>\<close>
  | ProvidersToCsv string provider_frame     \<comment> \<open>\<open>df.to_csv(name, index=False)\<close>\<close>
  | CensusToCsv string "census_result list"  \<comment> \<open>\<open>census_df.to_csv(name, index=False)\<close>\<close>
  | Print console

subsection \<open>Geocoding (\<open>geocode_address\<close>, \<open>geocode_addresses_concurrently\<close>)\<close>

text \<open>
  One pass through the body of the retry loop, for the reply \<open>r\<close> of the environment:
  \<open>Inl e\<close> when an exception leaves the function, \<open>Inr (Some p)\<close> when the pass returns
  the coordinates \<open>p\<close>, \<open>Inr None\<close> when the loop goes on. The handler of
  \<open>requests.RequestException\<close> also catches the \<open>JSONDecodeError\<close> of
  \<open>response.json()\<close>, and only that handler sleeps.
\<close>

definition geocode_attempt ::
  "string \<Rightarrow> string \<Rightarrow> geo_data reply \<Rightarrow> (error + (real \<times> real) option) \<times> event list" where
  "geocode_attempt address api_key r =
     (case r of
        Failed msg \<Rightarrow>
          (Inr None, [GeocodeGet address api_key,
                      Print (GeocodeError address (RequestException msg)), Sleep 1])
      | Response status_code body \<Rightarrow>
          if status_code = 200 then
            (case body of
               None \<Rightarrow>
                 (Inr None, [GeocodeGet address api_key,
                             Print (GeocodeError address JSONDecodeError), Sleep 1])
             | Some data \<Rightarrow>
                 (case status data of
                    None \<Rightarrow> (Inl (KeyError ''status''), [GeocodeGet address api_key])
                  | Some st \<Rightarrow>
                      if st = ''OK'' then
                        (case results data of
                           None \<Rightarrow> (Inl (KeyError ''results''), [GeocodeGet address api_key])
                         | Some [] \<Rightarrow>
                             (Inr None, [GeocodeGet address api_key,
                                         Print (GeocodeFailed address st)])
                         | Some (None # _) \<Rightarrow>
                             (Inl (KeyError ''geometry''), [GeocodeGet address api_key])
                         | Some (Some (lat, lng) # _) \<Rightarrow>
                             (Inr (Some (lat, lng)),
                              [GeocodeGet address api_key, Print (Geocoded address lat lng)]))
                      else
                        (Inr None, [GeocodeGet address api_key,
                                    Print (GeocodeFailed address st)])))
          else
            (Inr None, [GeocodeGet address api_key, Print (GeocodeHTTP address status_code)]))"

text \<open>The loop \<open>for _ in range(3)\<close>, over the attempts still to make.\<close>

fun geocode_loop ::
  "string \<Rightarrow> string \<Rightarrow> (nat \<Rightarrow> geo_data reply) \<Rightarrow> nat list
     \<Rightarrow> (error + real option \<times> real option) \<times> event list" where
  "geocode_loop address api_key env [] = (Inr (None, None), [])"
| "geocode_loop address api_key env (i # is) =
     (case geocode_attempt address api_key (env i) of
        (Inl e, evs) \<Rightarrow> (Inl e, evs)
      | (Inr (Some (lat, lng)), evs) \<Rightarrow> (Inr (Some lat, Some lng), evs)
      | (Inr None, evs) \<Rightarrow>
          (case geocode_loop address api_key env is of (r, evs') \<Rightarrow> (r, evs @ evs')))"

definition geocode_address ::
  "string \<Rightarrow> string \<Rightarrow> (nat \<Rightarrow> geo_data reply)
     \<Rightarrow> (error + real option \<times> real option) \<times> event list" where
  "geocode_address address api_key env = geocode_loop address api_key env [0..<3]"

text \<open>
  \<open>executor.map\<close> submits one task per address, in the order of the addresses, and the
  worker threads run them side by side; \<open>list(...)\<close> takes the results in the order of
  submission and re-raises the exception of the first task, in that order, that raised.
  Task \<open>i\<close> calls \<open>geocode_address\<close> with address \<open>i\<close> and gets the replies of the world
  for that address, that task and its attempts. That the results come in the order of
  submission, in whatever order the tasks end, is the guarantee of \<open>Executor.map\<close>; the
  model takes it over as it is.
\<close>

definition pool_tasks ::
  "string list \<Rightarrow> string \<Rightarrow> world
     \<Rightarrow> ((error + real option \<times> real option) \<times> event list) list" where
  "pool_tasks full_addresses api_key w =
     map (\<lambda>(i, addr). geocode_address addr api_key (geocode_get w addr i))
       (enumerate 0 full_addresses)"

fun results_in_order :: "(error + 'a) list \<Rightarrow> error + 'a list" where
  "results_in_order [] = Inr []"
| "results_in_order (Inl e # rs) = Inl e"
| "results_in_order (Inr p # rs) =
     (case results_in_order rs of Inl e \<Rightarrow> Inl e | Inr ps \<Rightarrow> Inr (p # ps))"

text \<open>
  The events of the tasks, interleaved: the schedule names the task whose next event
  comes next (a task that is at its end, or is none, is passed over), and what the tasks
  have left when the schedule ends follows in task order, since the \<open>with\<close> block waits
  for every task. Any interleaving of the tasks is the result of some schedule; that
  only ten of them run at a time is not modelled.
\<close>

fun interleave :: "nat list \<Rightarrow> event list list \<Rightarrow> event list" where
  "interleave [] logs = concat logs"
| "interleave (i # sched) logs =
     (if i < length logs then
        (case logs ! i of
           [] \<Rightarrow> interleave sched logs
         | e # es \<Rightarrow> e # interleave sched (logs[i := es]))
      else interleave sched logs)"

text \<open>
  When task \<open>raised\<close> is the first to raise, the tasks after it that had not started are
  cancelled and do nothing; the tasks up to it and the tasks that had started run to
  their end. When no task raises, \<open>raised\<close> is the number of tasks and all of them run.
\<close>

definition geocode_addresses_concurrently ::
  "string list \<Rightarrow> string \<Rightarrow> world
     \<Rightarrow> (error + (real option \<times> real option) list) \<times> event list" where
  "geocode_addresses_concurrently full_addresses api_key w =
     (let tasks = pool_tasks full_addresses api_key w;
          raised = length (takeWhile (\<lambda>t. \<not> isl (fst t)) tasks);
          logs = map (\<lambda>(i, t). if i \<le> raised \<or> \<not> pool_cancelled w i then snd t else [])
                   (enumerate 0 tasks)
      in (results_in_order (map fst tasks), interleave (pool_schedule w) logs))"

subsection \<open>Addresses (\<open>clean_address\<close>)\<close>

text \<open>
  \<open>str.strip()\<close> removes white space at both ends: below 256 these are the code points
  9 to 13, 28 to 32, 133 and 160. \<open>re.sub(' +', ' ', s)\<close> makes one space of every run
  of spaces.
\<close>

definition is_space :: "char \<Rightarrow> bool" where
  "is_space c =
     (c \<in> set [CHR 0x09, CHR 0x0A, CHR 0x0B, CHR 0x0C, CHR 0x0D,
                CHR 0x1C, CHR 0x1D, CHR 0x1E, CHR 0x1F, CHR 0x20, CHR 0x85, CHR 0xA0])"

definition strip :: "string \<Rightarrow> string" where
  "strip s = rev (dropWhile is_space (rev (dropWhile is_space s)))"

fun squeeze :: "string \<Rightarrow> string" where
  "squeeze (a # b # cs) =
     (if a = CHR 0x20 \<and> b = CHR 0x20 then squeeze (b # cs) else a # squeeze (b # cs))"
| "squeeze cs = cs"

definition clean_address :: "string \<Rightarrow> string" where
  "clean_address address = squeeze (strip address)"

subsection \<open>Census (\<open>fetch_census_data\<close>, the FIPS lookups,
  \<open>process_census_data_with_names\<close>)\<close>

definition STATE_FIPS :: string where
  "STATE_FIPS = ''26''"

text \<open>The dictionary \<open>variables\<close>, in the order of its items.\<close>

definition variables :: "(string \<times> string) list" where
  "variables =
     [(''0-3'', ''B01001_003E,B01001_027E''),
      (''3-5'', ''B01001_004E,B01001_028E''),
      (''6-11'', ''B01001_005E,B01001_006E,B01001_029E,B01001_030E'')]"

fun join :: "string \<Rightarrow> string list \<Rightarrow> string" where
  "join sep [] = []"
| "join sep [x] = x"
| "join sep (x # y # ys) = x @ sep @ join sep (y # ys)"

definition census_request :: "credentials \<Rightarrow> string \<Rightarrow> event" where
  "census_request cr state_fips =
     CensusGet (CENSUS_URL cr)
       \<lparr>p_get = join '','' (map snd variables),
        p_for = ''county:*'',
        p_in = ''state:'' @ state_fips,
        p_key = CENSUS_API_KEY cr\<rparr>"

text \<open>
  \<open>requests.get\<close> is outside the \<open>try\<close>: its exception leaves the function, before
  anything is printed. \<open>data[1:]\<close> drops the header row.
\<close>

definition fetch_census_data ::
  "credentials \<Rightarrow> world \<Rightarrow> string \<Rightarrow> (error + census_row list option) \<times> event list" where
  "fetch_census_data cr w state_fips =
     (case census_get w of
        Failed msg \<Rightarrow> (Inl (RequestException msg), [census_request cr state_fips])
      | Response status_code body \<Rightarrow>
          if status_code = 200 then
            (case body of
               Some data \<Rightarrow>
                 (Inr (Some (drop 1 data)),
                  [census_request cr state_fips, Print (FetchingCensus state_fips),
                   Print (ReceivedCensus (take 5 data))])
             | None \<Rightarrow>
                 (Inr None,
                  [census_request cr state_fips, Print (FetchingCensus state_fips),
                   Print CensusDecodeError]))
          else
            (Inr None,
             [census_request cr state_fips, Print (FetchingCensus state_fips),
              Print (CensusStatus status_code)]))"

fun get_county_name_from_fips :: "string \<Rightarrow> jcell \<Rightarrow> fips_entry list \<Rightarrow> string" where
  "get_county_name_from_fips state_fips county_fips [] = ''Unknown County''"
| "get_county_name_from_fips state_fips county_fips (entry # fips_data) =
     (if State entry = state_fips \<and> JStr (County_Code entry) = county_fips
      then County_Name entry
      else get_county_name_from_fips state_fips county_fips fips_data)"

fun get_place_name_from_fips :: "string \<Rightarrow> jcell \<Rightarrow> fips_entry list \<Rightarrow> string" where
  "get_place_name_from_fips state_fips place_fips [] = ''Unknown City/Town''"
| "get_place_name_from_fips state_fips place_fips (entry # fips_data) =
     (if State entry = state_fips \<and> JStr (Place_Code entry) = place_fips
      then Place_Name entry
      else get_place_name_from_fips state_fips place_fips fips_data)"

text \<open>A subscript \<open>data[i]\<close>: a negative index counts from the end.\<close>

definition get_item :: "'a list \<Rightarrow> int \<Rightarrow> error + 'a" where
  "get_item xs i =
     (let n = int (length xs); j = (if i < 0 then n + i else i)
      in if 0 \<le> j \<and> j < n then Inr (xs ! nat j) else Inl IndexError)"

text \<open>\<open>int(c)\<close> of a cell: \<open>int(None)\<close> raises \<open>TypeError\<close>.\<close>

definition int_of_cell :: "world \<Rightarrow> jcell \<Rightarrow> error + int" where
  "int_of_cell w c =
     (case c of
        JNull \<Rightarrow> Inl TypeError
      | JStr s \<Rightarrow>
          (case int_str w s of
             None \<Rightarrow> Inl (ValueError (InvalidLiteral s))
           | Some n \<Rightarrow> Inr n))"

text \<open>\<open>sum(int(data[i]) for i in ...)\<close>: the first subscript or conversion that raises ends it.\<close>

fun sum_ints :: "world \<Rightarrow> census_row \<Rightarrow> int list \<Rightarrow> error + int" where
  "sum_ints w data [] = Inr 0"
| "sum_ints w data (i # is) =
     (case get_item data i of
        Inl e \<Rightarrow> Inl e
      | Inr c \<Rightarrow>
          (case int_of_cell w c of
             Inl e \<Rightarrow> Inl e
           | Inr n \<Rightarrow>
               (case sum_ints w data is of
                  Inl e \<Rightarrow> Inl e
                | Inr m \<Rightarrow> Inr (n + m))))"

text \<open>The body of the \<open>try\<close>, up to the \<open>print\<close>.\<close>

definition census_names ::
  "world \<Rightarrow> census_row \<Rightarrow> fips_entry list
     \<Rightarrow> error + (string \<times> string \<times> int \<times> int \<times> int)" where
  "census_names w data fips_data =
     (case sum_ints w data [0, 1] of
        Inl e \<Rightarrow> Inl e
      | Inr c_0_3 \<Rightarrow>
     (case sum_ints w data [2, 3] of
        Inl e \<Rightarrow> Inl e
      | Inr c_3_5 \<Rightarrow>
     (case sum_ints w data [4, 5, 6, 7] of
        Inl e \<Rightarrow> Inl e
      | Inr c_6_11 \<Rightarrow>
     (case get_item data (- 2) of
        Inl e \<Rightarrow> Inl e
      | Inr county_fips \<Rightarrow>
     (case get_item data (- 1) of
        Inl e \<Rightarrow> Inl e
      | Inr place_fips \<Rightarrow>
          Inr (get_county_name_from_fips STATE_FIPS county_fips fips_data,
               get_place_name_from_fips STATE_FIPS place_fips fips_data,
               c_0_3, c_3_5, c_6_11))))))"

text \<open>\<open>except (ValueError, IndexError)\<close>: any other exception leaves the function.\<close>

definition process_census_data_with_names ::
  "world \<Rightarrow> census_row \<Rightarrow> fips_entry list
     \<Rightarrow> (error + (string \<times> string \<times> int \<times> int \<times> int)) \<times> event list" where
  "process_census_data_with_names w data fips_data =
     (case census_names w data fips_data of
        Inr (county_name, place_name, c_0_3, c_3_5, c_6_11) \<Rightarrow>
          (Inr (county_name, place_name, c_0_3, c_3_5, c_6_11),
           [Print (ProcessedCensus county_name place_name c_0_3 c_3_5 c_6_11)])
      | Inl (ValueError v) \<Rightarrow>
          (Inr (''Unknown County'', ''Unknown City/Town'', 0, 0, 0),
           [Print (ErrorProcessing (ValueError v))])
      | Inl IndexError \<Rightarrow>
          (Inr (''Unknown County'', ''Unknown City/Town'', 0, 0, 0),
           [Print (ErrorProcessing IndexError)])
      | Inl e \<Rightarrow> (Inl e, []))"

subsection \<open>The token and the provider records (\<open>get_access_token\<close>,
  \<open>get_valid_access_token\<close>, \<open>fetch_data\<close>)\<close>

text \<open>
  The state: the globals \<open>access_token\<close> and \<open>token_expiry\<close> (\<open>None\<close> before they are
  assigned), how many token requests and clock reads were made (they index the
  answers of the world), and the trace.
\<close>

record state =
  globals :: "(string \<times> real) option"
  posts :: nat
  ticks :: nat
  trace :: "event list"

definition initial :: state where
  "initial = \<lparr>globals = None, posts = 0, ticks = 0, trace = []\<rparr>"

definition emit :: "event list \<Rightarrow> state \<Rightarrow> state" where
  "emit evs s = s\<lparr>trace := trace s @ evs\<rparr>"

text \<open>\<open>response.raise_for_status()\<close> raises on a 4xx or 5xx status.\<close>

definition raises_for_status :: "int \<Rightarrow> bool" where
  "raises_for_status status_code = (400 \<le> status_code \<and> status_code < 600)"

definition get_access_token ::
  "credentials \<Rightarrow> world \<Rightarrow> state \<Rightarrow> (error + string \<times> real) \<times> state" where
  "get_access_token cr w s =
     (let s1 = emit [TokenPost (GS2Q_TOKEN_URL cr) (GS2Q_USERNAME cr) (GS2Q_PASSWORD cr)]
                 (s\<lparr>posts := Suc (posts s)\<rparr>)
      in case token_post w (posts s) of
           Failed msg \<Rightarrow> (Inl (RequestException msg), s1)
         | Response status_code body \<Rightarrow>
             if raises_for_status status_code then (Inl (HTTPError status_code), s1)
             else
               (case body of
                  None \<Rightarrow> (Inl JSONDecodeError, s1)
                | Some token_data \<Rightarrow>
                    (case tok_access_token token_data of
                       None \<Rightarrow> (Inl (ValueError NoAccessToken), s1)
                     | Some access_token \<Rightarrow>
                         if access_token = [] then (Inl (ValueError NoAccessToken), s1)
                         else
                           (let s2 = emit [TimeRead] (s1\<lparr>ticks := Suc (ticks s1)\<rparr>)
                            in case tok_expires_in token_data of
                                 None \<Rightarrow> (Inl TypeError, s2)
                               | Some expires_in \<Rightarrow>
                                   (Inr (access_token,
                                         time_now w (ticks s1) + expires_in - 60), s2)))))"

definition get_valid_access_token ::
  "credentials \<Rightarrow> world \<Rightarrow> state \<Rightarrow> (error + string) \<times> state" where
  "get_valid_access_token cr w s =
     (let s1 = emit [TimeRead] (s\<lparr>ticks := Suc (ticks s)\<rparr>)
      in case globals s of
           None \<Rightarrow> (Inl (NameError ''token_expiry''), s1)
         | Some (access_token, token_expiry) \<Rightarrow>
             if time_now w (ticks s) \<ge> token_expiry then
               (case get_access_token cr w s1 of
                  (Inl e, s2) \<Rightarrow> (Inl e, s2)
                | (Inr (access_token', token_expiry'), s2) \<Rightarrow>
                    (Inr access_token',
                     s2\<lparr>globals := Some (access_token', token_expiry')\<rparr>))
             else (Inr access_token, s1))"

definition fetch_data ::
  "credentials \<Rightarrow> world \<Rightarrow> state \<Rightarrow> (error + provider_record list) \<times> state" where
  "fetch_data cr w s =
     (case get_valid_access_token cr w s of
        (Inl e, s1) \<Rightarrow> (Inl e, s1)
      | (Inr token, s1) \<Rightarrow>
          (let s2 = emit [DataGet (GS2Q_DATA_URL cr) token] s1
           in case data_get w of
                Failed msg \<Rightarrow> (Inl (RequestException msg), s2)
              | Response status_code body \<Rightarrow>
                  if raises_for_status status_code then (Inl (HTTPError status_code), s2)
                  else
                    (case body of
                       None \<Rightarrow> (Inl JSONDecodeError, s2)
                     | Some None \<Rightarrow> (Inl (KeyError ''value''), s2)
                     | Some (Some provider_data) \<Rightarrow> (Inr provider_data, s2))))"

subsection \<open>The pipeline (\<open>process_data\<close>)\<close>

definition required_columns :: "string set" where
  "required_columns = {''AddressLine1'', ''City'', ''ZipCode''}"

text \<open>\<open>df.columns\<close> of \<open>pd.DataFrame(provider_data)\<close>: the keys, in the order they first appear.\<close>

definition frame_columns :: "provider_record list \<Rightarrow> string list" where
  "frame_columns provider_data = rev (remdups (rev (concat (map (map fst) provider_data))))"

text \<open>\<open>f"{row[c]}"\<close>: a cell the record has no key for is \<open>NaN\<close> and formats as \<open>nan\<close>.\<close>

definition cell_str :: "provider_record \<Rightarrow> string \<Rightarrow> string" where
  "cell_str row c = (case map_of row c of Some v \<Rightarrow> v | None \<Rightarrow> ''nan'')"

definition full_address :: "provider_record \<Rightarrow> string" where
  "full_address row =
     cell_str row ''AddressLine1'' @ '', '' @ cell_str row ''City'' @ '', Michigan '' @
     cell_str row ''ZipCode''"

text \<open>
  Lines 136 to 155: the token, the provider records, the check of the columns, the
  column \<open>Full Address\<close> and the geocoding. \<open>zip(*geocode_results)\<close> gives no tuple to
  unpack when there is no result.
\<close>

definition process_data_providers ::
  "credentials \<Rightarrow> world \<Rightarrow> string \<Rightarrow> (error + provider_frame) \<times> state" where
  "process_data_providers cr w api_key =
     (case get_access_token cr w initial of
        (Inl e, s1) \<Rightarrow> (Inl e, s1)
      | (Inr g, s1) \<Rightarrow>
     (case fetch_data cr w (s1\<lparr>globals := Some g\<rparr>) of
        (Inl e, s2) \<Rightarrow> (Inl e, s2)
      | (Inr provider_data, s2) \<Rightarrow>
          if \<not> required_columns \<subseteq> set (frame_columns provider_data) then
            (Inl (ValueError (MissingColumns
                    (required_columns - set (frame_columns provider_data)))), s2)
          else
            (let full_addresses = map clean_address (map full_address provider_data)
             in case geocode_addresses_concurrently full_addresses api_key w of
                  (Inl e, evs) \<Rightarrow> (Inl e, emit evs s2)
                | (Inr geocode_results, evs) \<Rightarrow>
                    if geocode_results = [] then
                      (Inl (ValueError NotEnoughValues), emit evs s2)
                    else
                      (Inr \<lparr>columns = frame_columns provider_data,
                            records = provider_data,
                            Full_Address = full_addresses,
                            Latitude = map fst geocode_results,
                            Longitude = map snd geocode_results\<rparr>,
                       emit evs s2))))"

text \<open>The loop over the census rows (lines 163 to 171).\<close>

fun census_rows ::
  "world \<Rightarrow> census_row list \<Rightarrow> fips_entry list
     \<Rightarrow> (error + census_result list) \<times> event list" where
  "census_rows w [] fips_data = (Inr [], [])"
| "census_rows w (row # census_data) fips_data =
     (case process_census_data_with_names w row fips_data of
        (Inl e, evs) \<Rightarrow> (Inl e, evs)
      | (Inr (county_name, place_name, c_0_3, c_3_5, c_6_11), evs) \<Rightarrow>
          (case census_rows w census_data fips_data of
             (Inl e, evs') \<Rightarrow> (Inl e, evs @ evs')
           | (Inr census_results, evs') \<Rightarrow>
               (Inr (\<lparr>county = county_name, city = place_name, children_0_3 = c_0_3,
                       children_3_5 = c_3_5, children_6_11 = c_6_11\<rparr> # census_results),
                evs @ evs')))"

text \<open>
  Lines 157 to 174: the census rows and their names. \<open>if census_data:\<close> skips the loop
  for \<open>None\<close> and for an empty list.
\<close>

definition process_data_census ::
  "credentials \<Rightarrow> fips_entry list \<Rightarrow> world \<Rightarrow> (error + census_result list) \<times> event list" where
  "process_data_census cr fips_data w =
     (case fetch_census_data cr w STATE_FIPS of
        (Inl e, evs) \<Rightarrow> (Inl e, evs)
      | (Inr None, evs) \<Rightarrow> (Inr [], evs)
      | (Inr (Some census_data), evs) \<Rightarrow>
          (case census_rows w census_data fips_data of
             (r, evs') \<Rightarrow> (r, evs @ evs')))"

text \<open>Lines 176 to 184: the time stamp, the two files and the two closing lines.\<close>

definition save_events :: "string \<Rightarrow> provider_frame \<Rightarrow> census_result list \<Rightarrow> event list" where
  "save_events timestamp df census_df =
     [Strftime,
      ProvidersToCsv (''processed_providers_'' @ timestamp @ ''.csv'') df,
      CensusToCsv (''processed_census_'' @ timestamp @ ''.csv'') census_df,
      Print (Complete (''processed_providers_'' @ timestamp @ ''.csv'')),
      Print (CensusSaved (''processed_census_'' @ timestamp @ ''.csv''))]"

definition process_data ::
  "credentials \<Rightarrow> fips_entry list \<Rightarrow> world \<Rightarrow> string \<Rightarrow> (error + unit) \<times> state" where
  "process_data cr fips_data w api_key =
     (case process_data_providers cr w api_key of
        (Inl e, s) \<Rightarrow> (Inl e, s)
      | (Inr df, s) \<Rightarrow>
          (case process_data_census cr fips_data w of
             (Inl e, evs) \<Rightarrow> (Inl e, emit evs s)
           | (Inr census_df, evs) \<Rightarrow>
               (Inr (), emit (save_events (strftime_now w) df census_df) (emit evs s))))"

subsection \<open>Notions the properties are stated with\<close>

text \<open>
  The stage of the pipeline an event belongs to: 1 the provider records and their
  token, 2 geocoding, 3 the census request, 4 the names of the census rows, 5 the
  output files.
\<close>

fun stage :: "event \<Rightarrow> nat" where
  "stage (TokenPost url username password) = 1"
| "stage TimeRead = 1"
| "stage (DataGet url token) = 1"
| "stage (GeocodeGet address api_key) = 2"
| "stage (Sleep n) = 2"
| "stage (Print (Geocoded address lat lng)) = 2"
| "stage (Print (GeocodeFailed address st)) = 2"
| "stage (Print (GeocodeHTTP address status_code)) = 2"
| "stage (Print (GeocodeError address e)) = 2"
| "stage (CensusGet url params) = 3"
| "stage (Print (FetchingCensus state_fips)) = 3"
| "stage (Print (ReceivedCensus data)) = 3"
| "stage (Print CensusDecodeError) = 3"
| "stage (Print (CensusStatus status_code)) = 3"
| "stage (Print (ProcessedCensus county_name place_name c_0_3 c_3_5 c_6_11)) = 4"
| "stage (Print (ErrorProcessing e)) = 4"
| "stage Strftime = 5"
| "stage (ProvidersToCsv name df) = 5"
| "stage (CensusToCsv name census_df) = 5"
| "stage (Print (Complete name)) = 5"
| "stage (Print (CensusSaved name)) = 5"

fun is_CensusGet :: "event \<Rightarrow> bool" where
  "is_CensusGet (CensusGet url params) = True"
| "is_CensusGet _ = False"

fun is_ToCsv :: "event \<Rightarrow> bool" where
  "is_ToCsv (ProvidersToCsv name df) = True"
| "is_ToCsv (CensusToCsv name census_df) = True"
| "is_ToCsv _ = False"

text \<open>
  The failures a geocoding attempt can end in without an exception leaving the function:
  a request exception (also an undecodable body), a status code other than 200, a
  geocoder status other than \<open>OK\<close>, or \<open>OK\<close> with no results.
\<close>

definition failed_attempt :: "geo_data reply \<Rightarrow> bool" where
  "failed_attempt r =
     (case r of
        Failed msg \<Rightarrow> True
      | Response status_code body \<Rightarrow>
          status_code \<noteq> 200 \<or>
          (case body of
             None \<Rightarrow> True
           | Some data \<Rightarrow>
               (case status data of
                  None \<Rightarrow> False
                | Some st \<Rightarrow> st \<noteq> ''OK'' \<or> results data = Some [])))"

text \<open>The console line of a failed attempt.\<close>

definition failure_line :: "string \<Rightarrow> geo_data reply \<Rightarrow> console" where
  "failure_line address r =
     (case r of
        Failed msg \<Rightarrow> GeocodeError address (RequestException msg)
      | Response status_code body \<Rightarrow>
          if status_code \<noteq> 200 then GeocodeHTTP address status_code
          else (case body of
                  None \<Rightarrow> GeocodeError address JSONDecodeError
                | Some data \<Rightarrow>
                    (case status data of
                       None \<Rightarrow> GeocodeFailed address []
                     | Some st \<Rightarrow> GeocodeFailed address st)))"

fun is_GeocodeGet :: "event \<Rightarrow> bool" where
  "is_GeocodeGet (GeocodeGet a k) = True"
| "is_GeocodeGet _ = False"

fun is_Print :: "event \<Rightarrow> bool" where
  "is_Print (Print c) = True"
| "is_Print _ = False"





subsection \<open>Example inputs\<close>

text \<open>
  Concrete replies, credentials, a FIPS table and worlds, on which the functions are
  evaluated. The census body has a header row and one county row; its last two
  columns are the geography of the request, the state and the county.
\<close>

definition demo_failing :: "nat \<Rightarrow> geo_data reply" where
  "demo_failing j =
     (if j = 0 then Failed ''timed out''
      else if j = 1 then Response 503 None
      else Response 200 (Some \<lparr>status = Some ''ZERO_RESULTS'', results = Some []\<rparr>))"

definition demo_retry :: "nat \<Rightarrow> geo_data reply" where
  "demo_retry j =
     (if j = 0 then Failed ''timed out''
      else Response 200
             (Some \<lparr>status = Some ''OK'', results = Some [Some (42, - 83), Some (1, 2)]\<rparr>))"

text \<open>
  The \<open>int\<close> of the example worlds, on strings of code points below 256: white space
  around (the code points 9 to 13, 32, 133 and 160), an optional sign, then decimal
  digits, where a single underscore may stand between two digits; more than 4300
  digits are refused, the default limit of the interpreter.
\<close>

definition int_space :: "char \<Rightarrow> bool" where
  "int_space c =
     (c \<in> set [CHR 0x09, CHR 0x0A, CHR 0x0B, CHR 0x0C, CHR 0x0D, CHR 0x20, CHR 0x85, CHR 0xA0])"

definition is_digit :: "char \<Rightarrow> bool" where
  "is_digit c = (48 \<le> (of_char c :: nat) \<and> (of_char c :: nat) \<le> 57)"

definition digit :: "char \<Rightarrow> nat" where
  "digit c = (of_char c :: nat) - 48"

fun py_digits :: "nat \<Rightarrow> string \<Rightarrow> nat option" where
  "py_digits acc [] = Some acc"
| "py_digits acc [c] = (if is_digit c then Some (10 * acc + digit c) else None)"
| "py_digits acc (c # d # ds) =
     (if c = CHR ''_'' then
        (if is_digit d then py_digits (10 * acc + digit d) ds else None)
      else if is_digit c then py_digits (10 * acc + digit c) (d # ds)
      else None)"

definition py_nat :: "string \<Rightarrow> nat option" where
  "py_nat s =
     (if length (filter is_digit s) > 4300 then None
      else case s of
             [] \<Rightarrow> None
           | c # cs \<Rightarrow> if is_digit c then py_digits (digit c) cs else None)"

definition py_int :: "string \<Rightarrow> int option" where
  "py_int s =
     (case rev (dropWhile int_space (rev (dropWhile int_space s))) of
        [] \<Rightarrow> None
      | c # cs \<Rightarrow>
          if c = CHR ''-'' then map_option (\<lambda>n. - int n) (py_nat cs)
          else if c = CHR ''+'' then map_option int (py_nat cs)
          else map_option int (py_nat (c # cs)))"

definition demo_credentials :: credentials where
  "demo_credentials =
     \<lparr>GMAP_API_KEY = ''gkey'', GS2Q_TOKEN_URL = ''https://gs2q/token'',
      GS2Q_DATA_URL = ''https://gs2q/data'', GS2Q_USERNAME = ''user'',
      GS2Q_PASSWORD = ''pass'', CENSUS_API_KEY = ''ckey'',
      CENSUS_URL = ''https://census/acs5''\<rparr>"

definition demo_fips :: "fips_entry list" where
  "demo_fips =
     [\<lparr>State = ''26'', County_Code = ''161'', County_Name = ''Washtenaw County'',
       Place_Code = ''03000'', Place_Name = ''Ann Arbor''\<rparr>,
      \<lparr>State = ''26'', County_Code = ''049'', County_Name = ''Genesee County'',
       Place_Code = ''29000'', Place_Name = ''Flint''\<rparr>]"

definition demo_providers :: "provider_record list" where
  "demo_providers =
     [[(''AddressLine1'', '' 1 Main  St''), (''City'', ''Ann Arbor''), (''ZipCode'', ''48104'')],
      [(''AddressLine1'', ''2 Oak Ave''), (''City'', ''Flint''), (''ZipCode'', ''48502'')]]"

definition demo_census :: "census_row list" where
  "demo_census =
     [map JStr [''B01001_003E'', ''B01001_027E'', ''B01001_004E'', ''B01001_028E'',
                ''B01001_005E'', ''B01001_006E'', ''B01001_029E'', ''B01001_030E'',
                ''state'', ''county''],
      map JStr [''10'', ''11'', ''20'', ''21'', ''30'', ''31'', ''32'', ''33'', ''26'', ''161'']]"

definition demo_world :: world where
  "demo_world =
     \<lparr>token_post = (\<lambda>k. Response 200
         (Some \<lparr>tok_access_token = Some ''abc'', tok_expires_in = Some 3600\<rparr>)),
      time_now = (\<lambda>k. 1000),
      data_get = Response 200 (Some (Some demo_providers)),
      geocode_get = (\<lambda>address i j.
         if address = ''1 Main St, Ann Arbor, Michigan 48104'' then
           (if j = 0 then Failed ''timed out''
            else Response 200 (Some \<lparr>status = Some ''OK'', results = Some [Some (42, - 83)]\<rparr>))
         else Response 200 (Some \<lparr>status = Some ''ZERO_RESULTS'', results = Some []\<rparr>)),
      census_get = Response 200 (Some demo_census),
      strftime_now = ''20240101_120000'',
      int_str = py_int,
      pool_schedule = [1, 0, 0, 1],
      pool_cancelled = (\<lambda>i. False)\<rparr>"

definition demo_world_census_down :: world where
  "demo_world_census_down = demo_world\<lparr>census_get := Response 503 None\<rparr>"


definition demo_world_no_city :: world where
  "demo_world_no_city =
     demo_world\<lparr>data_get := Response 200
       (Some (Some [[(''AddressLine1'', ''1 Main St''), (''ZipCode'', ''48104'')]]))\<rparr>"

section \<open>Properties\<close>

subsection \<open>The retry loop of \<open>geocode_address\<close>\<close>

lemma geocode_attempt_failed:
  "failed_attempt r \<Longrightarrow>
   fst (geocode_attempt address api_key r) = Inr None \<and>
   filter is_GeocodeGet (snd (geocode_attempt address api_key r)) = [GeocodeGet address api_key] \<and>
   filter is_Print (snd (geocode_attempt address api_key r)) = [Print (failure_line address r)]"
  by (auto simp: failed_attempt_def geocode_attempt_def failure_line_def
      split: reply.splits option.splits list.splits)

lemma geocode_attempt_gets:
  "filter is_GeocodeGet (snd (geocode_attempt address api_key r)) = [GeocodeGet address api_key]"
  by (auto simp: geocode_attempt_def split: reply.splits option.splits list.splits)

lemma geocode_loop_gets:
  "length (filter is_GeocodeGet (snd (geocode_loop address api_key env is))) \<le> length is"
proof (induction "is")
  case Nil
  show ?case by simp
next
  case (Cons i "is")
  obtain r evs where a: "geocode_attempt address api_key (env i) = (r, evs)"
    by (cases "geocode_attempt address api_key (env i)")
  have g: "filter is_GeocodeGet evs = [GeocodeGet address api_key]"
    using geocode_attempt_gets [of address api_key "env i"] a by simp
  show ?case
    using Cons.IH a g
    by (auto split: sum.splits option.splits prod.splits)
qed

lemma geocode_loop_all_failed:
  "\<forall>i \<in> set is. failed_attempt (env i) \<Longrightarrow>
   fst (geocode_loop address api_key env is) = Inr (None, None) \<and>
   filter is_GeocodeGet (snd (geocode_loop address api_key env is)) =
     map (\<lambda>i. GeocodeGet address api_key) is \<and>
   filter is_Print (snd (geocode_loop address api_key env is)) =
     map (\<lambda>i. Print (failure_line address (env i))) is"
proof (induction "is")
  case Nil
  show ?case by simp
next
  case (Cons i "is")
  obtain evs where a: "geocode_attempt address api_key (env i) = (Inr None, evs)"
    and g: "filter is_GeocodeGet evs = [GeocodeGet address api_key]"
    and p: "filter is_Print evs = [Print (failure_line address (env i))]"
    using geocode_attempt_failed [of "env i" address api_key] Cons.prems
    by (cases "geocode_attempt address api_key (env i)") auto
  show ?case
    using Cons a g p
    by (auto split: prod.splits)
qed

lemma upt_3: "[0..<3] = [0, 1, 2]"
  by (simp add: upt_rec)

text \<open>
  Claim C3. For every address and whatever the geocoder answers, \<open>geocode_address\<close>
  sends at most three requests. When each of the three attempts fails (a request
  exception, a status code other than 200, a geocoder status other than \<open>OK\<close>, or no
  results), it sends exactly three requests, returns \<open>(None, None)\<close> and raises nothing,
  and the console holds the failure line of each attempt, in order.
\<close>

theorem geocode_address_retries:
  "length (filter is_GeocodeGet (snd (geocode_address address api_key env))) \<le> 3 \<and>
   (failed_attempt (env 0) \<and> failed_attempt (env 1) \<and> failed_attempt (env 2) \<longrightarrow>
      fst (geocode_address address api_key env) = Inr (None, None) \<and>
      filter is_GeocodeGet (snd (geocode_address address api_key env)) =
        [GeocodeGet address api_key, GeocodeGet address api_key, GeocodeGet address api_key] \<and>
      filter is_Print (snd (geocode_address address api_key env)) =
        [Print (failure_line address (env 0)), Print (failure_line address (env 1)),
         Print (failure_line address (env 2))])"
proof (intro conjI impI)
  show "length (filter is_GeocodeGet (snd (geocode_address address api_key env))) \<le> 3"
    using geocode_loop_gets [of address api_key env "[0, 1, 2]"]
    by (simp add: geocode_address_def upt_3)
next
  assume f: "failed_attempt (env 0) \<and> failed_attempt (env 1) \<and> failed_attempt (env 2)"
  then have all: "\<forall>i \<in> set [0, 1, 2]. failed_attempt (env i)"
    by simp
  note l = geocode_loop_all_failed [OF all, of address api_key]
  show "fst (geocode_address address api_key env) = Inr (None, None)"
    using l by (simp add: geocode_address_def upt_3)
  show "filter is_GeocodeGet (snd (geocode_address address api_key env)) =
        [GeocodeGet address api_key, GeocodeGet address api_key, GeocodeGet address api_key]"
    using l by (simp add: geocode_address_def upt_3)
  show "filter is_Print (snd (geocode_address address api_key env)) =
        [Print (failure_line address (env 0)), Print (failure_line address (env 1)),
         Print (failure_line address (env 2))]"
    using l by (simp add: geocode_address_def upt_3)
qed

theorem geocode_address_retries_witness:
  "failed_attempt (demo_failing 0) \<and> failed_attempt (demo_failing 1) \<and>
   failed_attempt (demo_failing 2) \<and>
   geocode_address ''1 Main St'' ''k'' demo_failing =
     (Inr (None, None),
      [GeocodeGet ''1 Main St'' ''k'',
       Print (GeocodeError ''1 Main St'' (RequestException ''timed out'')), Sleep 1,
       GeocodeGet ''1 Main St'' ''k'', Print (GeocodeHTTP ''1 Main St'' 503),
       GeocodeGet ''1 Main St'' ''k'', Print (GeocodeFailed ''1 Main St'' ''ZERO_RESULTS'')])"
proof -
  have f: "failed_attempt (demo_failing 0) \<and> failed_attempt (demo_failing 1) \<and>
      failed_attempt (demo_failing 2)"
    by (simp add: failed_attempt_def demo_failing_def)
  have e: "snd (geocode_address ''1 Main St'' ''k'' demo_failing) =
     [GeocodeGet ''1 Main St'' ''k'',
       Print (GeocodeError ''1 Main St'' (RequestException ''timed out'')), Sleep 1,
       GeocodeGet ''1 Main St'' ''k'', Print (GeocodeHTTP ''1 Main St'' 503),
       GeocodeGet ''1 Main St'' ''k'', Print (GeocodeFailed ''1 Main St'' ''ZERO_RESULTS'')]"
    by (simp add: geocode_address_def upt_3 geocode_attempt_def demo_failing_def)
  from geocode_address_retries [of "''1 Main St''" "''k''" demo_failing] f
  have "fst (geocode_address ''1 Main St'' ''k'' demo_failing) = Inr (None, None)"
    by blast
  with e f show ?thesis
    by (simp add: prod_eq_iff)
qed

lemma geocode_loop_first_success:
  assumes "\<forall>j \<in> set pre. failed_attempt (env j)"
    and "env i = Response 200 (Some data)"
    and "status data = Some ''OK''"
    and "results data = Some (Some (lat, lng) # rest)"
  shows "fst (geocode_loop address api_key env (pre @ i # post)) = Inr (Some lat, Some lng) \<and>
    Print (Geocoded address lat lng) \<in> set (snd (geocode_loop address api_key env (pre @ i # post)))"
  using assms(1)
proof (induction pre)
  case Nil
  show ?case
    using assms(2-4) by (simp add: geocode_attempt_def)
next
  case (Cons j pre)
  obtain evs where a: "geocode_attempt address api_key (env j) = (Inr None, evs)"
    using geocode_attempt_failed [of "env j" address api_key] Cons.prems
    by (cases "geocode_attempt address api_key (env j)") auto
  show ?case
    using Cons a
    by (auto split: prod.splits)
qed

text \<open>
  Claim C4. When an attempt \<open>i\<close> of the three succeeds (status code 200, geocoder status
  \<open>OK\<close>, a first result with a location) after attempts that all failed,
  \<open>geocode_address\<close> returns the latitude and longitude of the first result's location,
  and prints them.
\<close>

theorem geocode_address_success:
  assumes "i < 3"
    and "\<forall>j < i. failed_attempt (env j)"
    and "env i = Response 200 (Some data)"
    and "status data = Some ''OK''"
    and "results data = Some (Some (lat, lng) # rest)"
  shows "fst (geocode_address address api_key env) = Inr (Some lat, Some lng) \<and>
    Print (Geocoded address lat lng) \<in> set (snd (geocode_address address api_key env))"
proof -
  have split: "[0..<3] = [0..<i] @ i # [Suc i..<3]"
  proof -
    have "i = 0 \<or> i = 1 \<or> i = 2"
      using assms(1) by arith
    then show ?thesis
      by (auto simp: upt_rec)
  qed
  have pre: "\<forall>j \<in> set [0..<i]. failed_attempt (env j)"
    using assms(2) by simp
  show ?thesis
    unfolding geocode_address_def split
    by (rule geocode_loop_first_success [OF pre assms(3) assms(4) assms(5)])
qed

theorem geocode_address_success_witness:
  "(1 :: nat) < 3 \<and> failed_attempt (demo_retry 0) \<and>
   demo_retry 1 = Response 200
     (Some \<lparr>status = Some ''OK'', results = Some [Some (42, - 83), Some (1, 2)]\<rparr>) \<and>
   fst (geocode_address ''1 Main St'' ''k'' demo_retry) = Inr (Some 42, Some (- 83)) \<and>
   Print (Geocoded ''1 Main St'' 42 (- 83)) \<in> set (snd (geocode_address ''1 Main St'' ''k'' demo_retry))"
proof -
  have f: "\<forall>j < 1. failed_attempt (demo_retry j)"
    by (simp add: failed_attempt_def demo_retry_def)
  have r: "demo_retry 1 = Response 200
     (Some \<lparr>status = Some ''OK'', results = Some [Some (42, - 83), Some (1, 2)]\<rparr>)"
    by (simp add: demo_retry_def)
  show ?thesis
    using geocode_address_success [of 1 demo_retry _ 42 "- 83" "[Some (1, 2)]" "''1 Main St''" "''k''",
        OF _ f r] f r
    by simp
qed

subsection \<open>The worker pool\<close>


lemma set_concat_update:
  assumes "i < length logs" and "logs ! i = e # es"
  shows "set (concat (logs[i := es])) \<union> {e} = set (concat logs)"
proof
  show "set (concat (logs[i := es])) \<union> {e} \<subseteq> set (concat logs)"
  proof
    fix x assume "x \<in> set (concat (logs[i := es])) \<union> {e}"
    then consider "x = e" | l where "l \<in> set (logs[i := es])" "x \<in> set l"
      by auto
    then show "x \<in> set (concat logs)"
    proof cases
      case 1
      have "logs ! i \<in> set logs" using assms(1) by simp
      then show ?thesis using 1 assms(2) by (force simp: set_concat)
    next
      case 2
      from 2(1) obtain j where "j < length (logs[i := es])" "logs[i := es] ! j = l"
        unfolding in_set_conv_nth by blast
      then have j: "j < length logs" "l = logs[i := es] ! j"
        by simp_all
      show ?thesis
      proof (cases "j = i")
        case True
        then have "l = es" using j assms(1) by simp
        then have "x \<in> set (logs ! i)" using 2(2) assms(2) by simp
        moreover have "logs ! i \<in> set logs" using assms(1) by simp
        ultimately show ?thesis unfolding set_concat by blast
      next
        case False
        then have "l = logs ! j" using j by simp
        then have "x \<in> set (logs ! j)" using 2(2) by simp
        moreover have "logs ! j \<in> set logs" using j(1) by simp
        ultimately show ?thesis unfolding set_concat by blast
      qed
    qed
  qed
  show "set (concat logs) \<subseteq> set (concat (logs[i := es])) \<union> {e}"
  proof
    fix x assume "x \<in> set (concat logs)"
    then obtain l where l: "l \<in> set logs" "x \<in> set l"
      unfolding set_concat by blast
    from l(1) obtain j where "j < length logs" "logs ! j = l"
      unfolding in_set_conv_nth by blast
    with l(2) have j: "j < length logs" "x \<in> set (logs ! j)"
      by simp_all
    have m: "logs[i := es] ! j \<in> set (logs[i := es])"
      using j(1) by simp
    show "x \<in> set (concat (logs[i := es])) \<union> {e}"
    proof (cases "j = i")
      case True
      then have "x = e \<or> x \<in> set es" using j(2) assms(2) by simp
      moreover have "logs[i := es] ! j = es" using assms(1) True by simp
      ultimately have "x = e \<or> x \<in> set (logs[i := es] ! j)" by simp
      then show ?thesis using m unfolding set_concat by blast
    next
      case False
      then have "logs[i := es] ! j = logs ! j" by simp
      then have "x \<in> set (logs[i := es] ! j)" using j(2) by simp
      then show ?thesis using m unfolding set_concat by blast
    qed
  qed
qed

lemma set_interleave:
  "set (interleave sched logs) = set (concat logs)"
proof (induction sched arbitrary: logs)
  case Nil
  show ?case by simp
next
  case (Cons i sched)
  show ?case
  proof (cases "i < length logs")
    case False
    then show ?thesis using Cons.IH by simp
  next
    case True
    show ?thesis
    proof (cases "logs ! i")
      case Nil
      then show ?thesis using True Cons.IH by simp
    next
      case (Cons e es)
      note l = this
      have "set (interleave (i # sched) logs) = {e} \<union> set (concat (logs[i := es]))"
        using True l by (simp add: Cons.IH [of "logs[i := es]"])
      then show ?thesis
        using set_concat_update [OF True l] by auto
    qed
  qed
qed

subsection \<open>The events of each stage\<close>

lemma get_access_token_trace:
  "get_access_token cr w s = (r, s') \<Longrightarrow>
   \<exists>evs. trace s' = trace s @ evs \<and> (\<forall>e \<in> set evs. stage e = 1)"
  by (auto simp: get_access_token_def emit_def Let_def
      split: reply.splits option.splits if_splits)

lemma get_valid_access_token_trace:
  "get_valid_access_token cr w s = (r, s') \<Longrightarrow>
   \<exists>evs. trace s' = trace s @ evs \<and> (\<forall>e \<in> set evs. stage e = 1)"
proof -
  assume a: "get_valid_access_token cr w s = (r, s')"
  let ?s1 = "emit [TimeRead] (s\<lparr>ticks := Suc (ticks s)\<rparr>)"
  obtain r2 s2 where g: "get_access_token cr w ?s1 = (r2, s2)"
    by (cases "get_access_token cr w ?s1")
  from get_access_token_trace [OF g]
  obtain evs where e: "trace s2 = trace ?s1 @ evs" "\<forall>e \<in> set evs. stage e = 1"
    by blast
  have "trace s' = trace s @ [TimeRead] \<or> trace s' = trace s @ [TimeRead] @ evs"
    using a g e(1)
    by (auto simp: get_valid_access_token_def emit_def Let_def
        split: option.splits if_splits sum.splits prod.splits)
  then show ?thesis
    using e(2) by (metis append_Nil2 empty_iff empty_set set_ConsD set_append Un_iff stage.simps(2))
qed

lemma fetch_data_trace:
  assumes "fetch_data cr w s = (r, s')"
  shows "\<exists>evs. trace s' = trace s @ evs \<and> (\<forall>e \<in> set evs. stage e = 1) \<and>
     (\<forall>provider_data. r = Inr provider_data \<longrightarrow>
        (\<exists>token. DataGet (GS2Q_DATA_URL cr) token \<in> set evs) \<and>
        data_get w = Response (case data_get w of Response c b \<Rightarrow> c | Failed m \<Rightarrow> 0)
                       (Some (Some provider_data)))"
proof -
  obtain r1 s1 where v: "get_valid_access_token cr w s = (r1, s1)"
    by (cases "get_valid_access_token cr w s")
  from get_valid_access_token_trace [OF v]
  obtain evs where e: "trace s1 = trace s @ evs" "\<forall>e \<in> set evs. stage e = 1"
    by blast
  show ?thesis
  proof (cases r1)
    case (Inl err)
    then have "s' = s1" "r = Inl err"
      using assms v by (auto simp: fetch_data_def)
    then show ?thesis using e by auto
  next
    case (Inr token)
    have t: "trace s' = trace s @ (evs @ [DataGet (GS2Q_DATA_URL cr) token])"
      using assms v Inr e(1)
      by (auto simp: fetch_data_def emit_def Let_def
          split: reply.splits option.splits if_splits)
    have d: "\<forall>provider_data. r = Inr provider_data \<longrightarrow>
        data_get w = Response (case data_get w of Response c b \<Rightarrow> c | Failed m \<Rightarrow> 0)
                       (Some (Some provider_data))"
      using assms v Inr
      by (auto simp: fetch_data_def emit_def Let_def
          split: reply.splits option.splits if_splits)
    show ?thesis
      using t d e(2) by (intro exI [of _ "evs @ [DataGet (GS2Q_DATA_URL cr) token]"]) auto
  qed
qed

lemma geocode_attempt_stage:
  "\<forall>e \<in> set (snd (geocode_attempt address api_key r)). stage e = 2"
  by (auto simp: geocode_attempt_def split: reply.splits option.splits list.splits)


lemma geocode_loop_stage:
  "\<forall>e \<in> set (snd (geocode_loop address api_key env is)). stage e = 2"
proof (induction "is")
  case Nil
  show ?case by simp
next
  case (Cons i "is")
  show ?case
    using Cons.IH geocode_attempt_stage [of address api_key "env i"]
    by (auto split: prod.splits sum.splits option.splits)
qed

lemma geocode_address_stage:
  "\<forall>e \<in> set (snd (geocode_address address api_key env)). stage e = 2"
  unfolding geocode_address_def by (rule geocode_loop_stage)


lemma length_pool_tasks:
  "length (pool_tasks full_addresses api_key w) = length full_addresses"
  by (simp add: pool_tasks_def)

lemma pool_tasks_nth:
  "i < length full_addresses \<Longrightarrow>
   pool_tasks full_addresses api_key w ! i =
     geocode_address (full_addresses ! i) api_key (geocode_get w (full_addresses ! i) i)"
  by (simp add: pool_tasks_def nth_enumerate_eq)

lemma pool_stage:
  "\<forall>e \<in> set (snd (geocode_addresses_concurrently full_addresses api_key w)). stage e = 2"
proof
  fix e
  let ?tasks = "pool_tasks full_addresses api_key w"
  assume "e \<in> set (snd (geocode_addresses_concurrently full_addresses api_key w))"
  then obtain it where it: "it \<in> set (enumerate 0 ?tasks)"
    and e: "e \<in> set (snd (snd it))"
    by (auto simp: geocode_addresses_concurrently_def Let_def set_interleave
        split: if_splits)
  then obtain i where "i < length full_addresses" "snd it = ?tasks ! i"
    by (auto simp: in_set_enumerate_eq length_pool_tasks)
  then have "snd it =
      geocode_address (full_addresses ! i) api_key (geocode_get w (full_addresses ! i) i)"
    by (simp add: pool_tasks_nth)
  then show "stage e = 2"
    using e geocode_address_stage by metis
qed




lemma sorted_one_stage:
  "\<forall>e \<in> set evs. stage e = k \<Longrightarrow> sorted (map stage evs)"
  by (induction evs) auto

lemma fetch_census_data_events:
  "\<exists>evs. snd (fetch_census_data cr w state_fips) = census_request cr state_fips # evs \<and>
     (\<forall>e \<in> set evs. stage e = 3 \<and> \<not> is_CensusGet e)"
  by (auto simp: fetch_census_data_def split: reply.splits option.splits)

lemma process_census_data_with_names_stage:
  "\<forall>e \<in> set (snd (process_census_data_with_names w data fips_data)). stage e = 4"
  by (auto simp: process_census_data_with_names_def
      split: sum.splits error.splits prod.splits)

lemma census_rows_stage:
  "\<forall>e \<in> set (snd (census_rows w census_data fips_data)). stage e = 4"
proof (induction census_data)
  case Nil
  show ?case by simp
next
  case (Cons row census_data)
  show ?case
    using Cons.IH process_census_data_with_names_stage [of w row fips_data]
    by (auto split: prod.splits sum.splits)
qed

lemma process_data_census_events:
  "\<exists>evs. snd (process_data_census cr fips_data w) = census_request cr STATE_FIPS # evs \<and>
     (\<forall>e \<in> set evs. (stage e = 3 \<or> stage e = 4) \<and> \<not> is_CensusGet e) \<and>
     sorted (map stage evs)"
proof -
  obtain evs where f: "snd (fetch_census_data cr w STATE_FIPS) = census_request cr STATE_FIPS # evs"
    and s3: "\<forall>e \<in> set evs. stage e = 3 \<and> \<not> is_CensusGet e"
    using fetch_census_data_events by blast
  have sorted3: "sorted (map stage evs)"
    using s3 sorted_one_stage [of evs 3] by blast
  show ?thesis
  proof (cases "fetch_census_data cr w STATE_FIPS")
    case (Pair r evs0)
    then have evs0: "evs0 = census_request cr STATE_FIPS # evs"
      using f by simp
    show ?thesis
    proof (cases r)
      case (Inl e)
      then show ?thesis
        using Pair evs0 s3 sorted3 by (simp add: process_data_census_def)
    next
      case (Inr d)
      show ?thesis
      proof (cases d)
        case None
        then show ?thesis
          using Pair Inr evs0 s3 sorted3 by (simp add: process_data_census_def)
      next
        case (Some census_data)
        let ?t4 = "snd (census_rows w census_data fips_data)"
        have s4: "\<forall>e \<in> set ?t4. stage e = 4"
          by (rule census_rows_stage)
        have n4: "\<forall>e \<in> set ?t4. \<not> is_CensusGet e"
        proof
          fix e assume "e \<in> set ?t4"
          then have "stage e = 4" using s4 by blast
          then show "\<not> is_CensusGet e" by (cases e) auto
        qed
        have sorted4: "sorted (map stage ?t4)"
          using s4 by (rule sorted_one_stage)
        have "snd (process_data_census cr fips_data w) = census_request cr STATE_FIPS # (evs @ ?t4)"
          using Pair Inr Some evs0 by (simp add: process_data_census_def split: prod.splits)
        moreover have "sorted (map stage (evs @ ?t4))"
          using sorted3 sorted4 s3 s4 by (auto simp: sorted_append)
        ultimately show ?thesis
          using s3 s4 n4 by (intro exI [of _ "evs @ ?t4"]) auto
      qed
    qed
  qed
qed

lemma process_data_providers_trace:
  assumes "process_data_providers cr w api_key = (r, s)"
  shows "\<exists>t1 t2. trace s = t1 @ t2 \<and> (\<forall>e \<in> set t1. stage e = 1) \<and>
           (\<forall>e \<in> set t2. stage e = 2) \<and>
           (\<forall>df. r = Inr df \<longrightarrow>
              (\<exists>token. DataGet (GS2Q_DATA_URL cr) token \<in> set t1) \<and>
              t2 = snd (geocode_addresses_concurrently (Full_Address df) api_key w))"
proof -
  obtain r1 s1 where g: "get_access_token cr w initial = (r1, s1)"
    by (cases "get_access_token cr w initial")
  from get_access_token_trace [OF g]
  obtain e1 where e1: "trace s1 = e1" "\<forall>e \<in> set e1. stage e = 1"
    by (auto simp: initial_def)
  show ?thesis
  proof (cases r1)
    case (Inl err)
    then have "s = s1"
      using assms g by (simp add: process_data_providers_def)
    then show ?thesis
      using e1 Inl assms g
      by (intro exI [of _ e1] exI [of _ "[]"]) (auto simp: process_data_providers_def)
  next
    case (Inr tk)
    obtain r2 s2 where f: "fetch_data cr w (s1\<lparr>globals := Some tk\<rparr>) = (r2, s2)"
      by (cases "fetch_data cr w (s1\<lparr>globals := Some tk\<rparr>)")
    from fetch_data_trace [OF f]
    obtain e2 where e2: "trace s2 = e1 @ e2" "\<forall>e \<in> set e2. stage e = 1"
      and d: "\<forall>provider_data. r2 = Inr provider_data \<longrightarrow>
                (\<exists>token. DataGet (GS2Q_DATA_URL cr) token \<in> set e2)"
      using e1(1) by auto
    have st1: "\<forall>e \<in> set (e1 @ e2). stage e = 1"
      using e1(2) e2(2) by auto
    show ?thesis
    proof (cases r2)
      case (Inl err)
      then have "s = s2" "r = Inl err"
        using assms g f Inr by (auto simp: process_data_providers_def)
      then show ?thesis
        using e2(1) st1
        by (intro exI [of _ "e1 @ e2"] exI [of _ "[]"]) auto
    next
      case (Inr provider_data)
      note pd = Inr
      show ?thesis
      proof (cases "required_columns \<subseteq> set (frame_columns provider_data)")
        case False
        then have "s = s2" "\<exists>err. r = Inl err"
          using assms g f \<open>r1 = Inr tk\<close> pd by (auto simp: process_data_providers_def)
        then show ?thesis
          using e2(1) st1
          by (intro exI [of _ "e1 @ e2"] exI [of _ "[]"]) auto
      next
        case True
        let ?fa = "map clean_address (map full_address provider_data)"
        obtain r3 evs where gc:
          "geocode_addresses_concurrently ?fa api_key w = (r3, evs)"
          by (cases "geocode_addresses_concurrently ?fa api_key w")
        have st2: "\<forall>e \<in> set evs. stage e = 2"
          using pool_stage [of ?fa api_key w] gc by simp
        have s: "trace s = (e1 @ e2) @ evs"
          using assms g f \<open>r1 = Inr tk\<close> pd True gc e2(1)
          by (auto simp: process_data_providers_def emit_def Let_def split: sum.splits if_splits)
        have fa: "\<forall>df. r = Inr df \<longrightarrow> Full_Address df = ?fa"
          using assms g f \<open>r1 = Inr tk\<close> pd True gc
          by (auto simp: process_data_providers_def emit_def Let_def split: sum.splits if_splits)
        have "\<exists>token. DataGet (GS2Q_DATA_URL cr) token \<in> set (e1 @ e2)"
          using d pd by auto
        then show ?thesis
          using s st1 st2 fa gc
          by (intro exI [of _ "e1 @ e2"] exI [of _ evs]) auto
      qed
    qed
  qed
qed


lemma process_data_success:
  assumes "process_data cr fips_data w api_key = (Inr (), s)"
  shows "\<exists>df sp census_df evs.
           process_data_providers cr w api_key = (Inr df, sp) \<and>
           process_data_census cr fips_data w = (Inr census_df, evs) \<and>
           trace s = trace sp @ evs @ save_events (strftime_now w) df census_df"
proof -
  obtain rp sp where p: "process_data_providers cr w api_key = (rp, sp)"
    by (cases "process_data_providers cr w api_key")
  obtain rc evs where c: "process_data_census cr fips_data w = (rc, evs)"
    by (cases "process_data_census cr fips_data w")
  obtain df where rp: "rp = Inr df"
    using assms p by (cases rp) (auto simp: process_data_def)
  obtain census_df where rc: "rc = Inr census_df"
    using assms p c rp by (cases rc) (auto simp: process_data_def)
  have "trace s = trace sp @ evs @ save_events (strftime_now w) df census_df"
    using assms p c rp rc by (auto simp: process_data_def emit_def)
  then show ?thesis
    using p c rp rc by blast
qed

lemma process_data_trace:
  "\<exists>t1 t2 t3 t5.
     trace (snd (process_data cr fips_data w api_key)) = t1 @ t2 @ t3 @ t5 \<and>
     (\<forall>e \<in> set t1. stage e = 1) \<and> (\<forall>e \<in> set t2. stage e = 2) \<and>
     (t3 = [] \<and> t5 = [] \<and> (\<exists>e. fst (process_data_providers cr w api_key) = Inl e) \<or>
      t3 = snd (process_data_census cr fips_data w) \<and>
      (\<exists>df. fst (process_data_providers cr w api_key) = Inr df \<and>
         (t5 = [] \<and> (\<exists>e. fst (process_data_census cr fips_data w) = Inl e) \<or>
          (\<exists>census_df. fst (process_data_census cr fips_data w) = Inr census_df \<and>
             t5 = save_events (strftime_now w) df census_df))))"
proof -
  obtain rp sp where p: "process_data_providers cr w api_key = (rp, sp)"
    by (cases "process_data_providers cr w api_key")
  from process_data_providers_trace [OF p]
  obtain t1 t2 where t: "trace sp = t1 @ t2" "\<forall>e \<in> set t1. stage e = 1"
    "\<forall>e \<in> set t2. stage e = 2"
    by blast
  obtain rc evs where c: "process_data_census cr fips_data w = (rc, evs)"
    by (cases "process_data_census cr fips_data w")
  show ?thesis
  proof (cases rp)
    case (Inl e)
    then have "trace (snd (process_data cr fips_data w api_key)) = t1 @ t2 @ [] @ []"
      using p t(1) by (simp add: process_data_def)
    then show ?thesis
      using t(2,3) p Inl by (intro exI [of _ t1] exI [of _ t2] exI [of _ "[]"]) auto
  next
    case (Inr df)
    note df = Inr
    show ?thesis
    proof (cases rc)
      case (Inl e)
      then have "trace (snd (process_data cr fips_data w api_key)) = t1 @ t2 @ evs @ []"
        using p c df t(1) by (simp add: process_data_def emit_def)
      then show ?thesis
        using t(2,3) p c df Inl
        by (intro exI [of _ t1] exI [of _ t2] exI [of _ evs] exI [of _ "[]"]) auto
    next
      case (Inr census_df)
      then have "trace (snd (process_data cr fips_data w api_key)) =
          t1 @ t2 @ evs @ save_events (strftime_now w) df census_df"
        using p c df t(1) by (simp add: process_data_def emit_def)
      then show ?thesis
        using t(2,3) p c df Inr
        by (intro exI [of _ t1] exI [of _ t2] exI [of _ evs]
            exI [of _ "save_events (strftime_now w) df census_df"]) auto
    qed
  qed
qed


lemma census_request_stage:
  "stage (census_request cr state_fips) = 3 \<and> is_CensusGet (census_request cr state_fips)"
  by (simp add: census_request_def)


subsection \<open>A run on the example inputs\<close>

lemmas demo_defs =
  process_data_def process_data_providers_def get_access_token_def initial_def emit_def
  raises_for_status_def demo_world_def fetch_data_def get_valid_access_token_def
  demo_providers_def demo_credentials_def demo_fips_def
  required_columns_def frame_columns_def geocode_addresses_concurrently_def pool_tasks_def
  geocode_address_def geocode_attempt_def upt_3 process_data_census_def
  fetch_census_data_def census_request_def demo_census_def STATE_FIPS_def variables_def
  process_census_data_with_names_def census_names_def get_item_def int_of_cell_def
  py_int_def int_space_def strip_def is_space_def py_nat_def is_digit_def digit_def
  save_events_def
  clean_address_def full_address_def cell_str_def

lemma demo_run:
  "process_data demo_credentials demo_fips demo_world ''gkey'' =
    (Inr (),
     \<lparr>globals = Some (''abc'', 4540), posts = 1, ticks = 2,
      trace =
        [TokenPost ''https://gs2q/token'' ''user'' ''pass'', TimeRead, TimeRead,
         DataGet ''https://gs2q/data'' ''abc'',
         GeocodeGet ''2 Oak Ave, Flint, Michigan 48502'' ''gkey'',
         GeocodeGet ''1 Main St, Ann Arbor, Michigan 48104'' ''gkey'',
         Print (GeocodeError ''1 Main St, Ann Arbor, Michigan 48104''
                  (RequestException ''timed out'')),
         Print (GeocodeFailed ''2 Oak Ave, Flint, Michigan 48502'' ''ZERO_RESULTS''),
         Sleep 1,
         GeocodeGet ''1 Main St, Ann Arbor, Michigan 48104'' ''gkey'',
         Print (Geocoded ''1 Main St, Ann Arbor, Michigan 48104'' 42 (- 83)),
         GeocodeGet ''2 Oak Ave, Flint, Michigan 48502'' ''gkey'',
         Print (GeocodeFailed ''2 Oak Ave, Flint, Michigan 48502'' ''ZERO_RESULTS''),
         GeocodeGet ''2 Oak Ave, Flint, Michigan 48502'' ''gkey'',
         Print (GeocodeFailed ''2 Oak Ave, Flint, Michigan 48502'' ''ZERO_RESULTS''),
         CensusGet ''https://census/acs5''
           \<lparr>p_get = ''B01001_003E,B01001_027E,B01001_004E,B01001_028E,B01001_005E,B01001_006E,B01001_029E,B01001_030E'',
            p_for = ''county:*'', p_in = ''state:26'', p_key = ''ckey''\<rparr>,
         Print (FetchingCensus ''26''),
         Print (ReceivedCensus demo_census),
         Print (ProcessedCensus ''Unknown County'' ''Unknown City/Town'' 21 41 126),
         Strftime,
         ProvidersToCsv ''processed_providers_20240101_120000.csv''
           \<lparr>columns = [''AddressLine1'', ''City'', ''ZipCode''],
            records = demo_providers,
            Full_Address = [''1 Main St, Ann Arbor, Michigan 48104'',
                            ''2 Oak Ave, Flint, Michigan 48502''],
            Latitude = [Some 42, None], Longitude = [Some (- 83), None]\<rparr>,
         CensusToCsv ''processed_census_20240101_120000.csv''
           [\<lparr>county = ''Unknown County'', city = ''Unknown City/Town'', children_0_3 = 21,
             children_3_5 = 41, children_6_11 = 126\<rparr>],
         Print (Complete ''processed_providers_20240101_120000.csv''),
         Print (CensusSaved ''processed_census_20240101_120000.csv'')]\<rparr>)"
  by (simp add: demo_defs)

subsection \<open>The entries of the census frame\<close>












subsection \<open>The order of the pipeline\<close>







subsection \<open>The census request\<close>

lemma stage_not_3_not_CensusGet: "stage e \<noteq> 3 \<Longrightarrow> \<not> is_CensusGet e"
  by (cases e) auto

lemma filter_CensusGet_other:
  "\<forall>e \<in> set evs. stage e = k \<Longrightarrow> k \<noteq> 3 \<Longrightarrow> filter is_CensusGet evs = []"
  using stage_not_3_not_CensusGet by (fastforce simp: filter_empty_conv)

lemma join_variables:
  "join '','' (map snd variables) =
     ''B01001_003E,B01001_027E,B01001_004E,B01001_028E,B01001_005E,B01001_006E,B01001_029E,B01001_030E''"
  by (simp add: variables_def)

text \<open>
  Claim C5. Whatever the credentials, the FIPS table, the answers of the environment
  and the API key are, a run of \<open>process_data\<close> that gets as far as the census sends
  exactly one census request, and it is the same request but for the URL and the key:
  the eight age-group variables, for every county (\<open>county:*\<close>), in state 26. A run that
  stops before sends none. On a response with status 200 and a JSON body,
  \<open>fetch_census_data\<close> returns the rows of the body without the first one.
\<close>

theorem census_request_fixed:
  "filter is_CensusGet (trace (snd (process_data cr fips_data w api_key))) =
     (case fst (process_data_providers cr w api_key) of
        Inl e \<Rightarrow> []
      | Inr df \<Rightarrow>
          [CensusGet (CENSUS_URL cr)
             \<lparr>p_get = ''B01001_003E,B01001_027E,B01001_004E,B01001_028E,B01001_005E,B01001_006E,B01001_029E,B01001_030E'',
              p_for = ''county:*'', p_in = ''state:26'', p_key = CENSUS_API_KEY cr\<rparr>]) \<and>
   (census_get w = Response 200 (Some data) \<longrightarrow>
      fst (fetch_census_data cr w state_fips) = Inr (Some (drop 1 data)))"
proof (intro conjI impI)
  let ?req = "CensusGet (CENSUS_URL cr)
             \<lparr>p_get = ''B01001_003E,B01001_027E,B01001_004E,B01001_028E,B01001_005E,B01001_006E,B01001_029E,B01001_030E'',
              p_for = ''county:*'', p_in = ''state:26'', p_key = CENSUS_API_KEY cr\<rparr>"
  have req: "census_request cr STATE_FIPS = ?req"
    by (simp add: census_request_def join_variables STATE_FIPS_def)
  from process_data_trace [of cr fips_data w api_key]
  obtain t1 t2 t3 t5 where
    t: "trace (snd (process_data cr fips_data w api_key)) = t1 @ t2 @ t3 @ t5"
    and s1: "\<forall>e \<in> set t1. stage e = 1" and s2: "\<forall>e \<in> set t2. stage e = 2"
    and alt: "t3 = [] \<and> (\<exists>e. fst (process_data_providers cr w api_key) = Inl e) \<or>
      t3 = snd (process_data_census cr fips_data w) \<and>
      (\<exists>df. fst (process_data_providers cr w api_key) = Inr df)"
    and t5: "t5 = [] \<or> (\<exists>df census_df. t5 = save_events (strftime_now w) df census_df)"
    by blast
  have f1: "filter is_CensusGet t1 = []"
    using filter_CensusGet_other [OF s1] by simp
  have f2: "filter is_CensusGet t2 = []"
    using filter_CensusGet_other [OF s2] by simp
  have f5: "filter is_CensusGet t5 = []"
    using t5 by (auto simp: save_events_def)
  from process_data_census_events [of cr fips_data w]
  obtain evs where c: "snd (process_data_census cr fips_data w) = census_request cr STATE_FIPS # evs"
    and n: "\<forall>e \<in> set evs. \<not> is_CensusGet e"
    by blast
  have fc: "filter is_CensusGet (snd (process_data_census cr fips_data w)) = [?req]"
    using c n req by (simp add: filter_empty_conv)
  show "filter is_CensusGet (trace (snd (process_data cr fips_data w api_key))) =
     (case fst (process_data_providers cr w api_key) of Inl e \<Rightarrow> [] | Inr df \<Rightarrow> [?req])"
    using alt
  proof (elim disjE conjE exE)
    fix e assume "t3 = []" "fst (process_data_providers cr w api_key) = Inl e"
    then show ?thesis
      unfolding t using f1 f2 f5 by simp
  next
    fix df assume "t3 = snd (process_data_census cr fips_data w)"
      "fst (process_data_providers cr w api_key) = Inr df"
    then show ?thesis
      unfolding t using f1 f2 f5 fc by simp
  qed
next
  assume "census_get w = Response 200 (Some data)"
  then show "fst (fetch_census_data cr w state_fips) = Inr (Some (drop 1 data))"
    by (simp add: fetch_census_data_def)
qed

theorem census_request_fixed_witness:
  "census_get demo_world = Response 200 (Some demo_census) \<and>
   fst (fetch_census_data demo_credentials demo_world ''26'') = Inr (Some (drop 1 demo_census)) \<and>
   drop 1 demo_census =
     [map JStr [''10'', ''11'', ''20'', ''21'', ''30'', ''31'', ''32'', ''33'', ''26'', ''161'']] \<and>
   filter is_CensusGet (trace (snd (process_data demo_credentials demo_fips demo_world ''gkey''))) =
     [CensusGet ''https://census/acs5''
        \<lparr>p_get = ''B01001_003E,B01001_027E,B01001_004E,B01001_028E,B01001_005E,B01001_006E,B01001_029E,B01001_030E'',
         p_for = ''county:*'', p_in = ''state:26'', p_key = ''ckey''\<rparr>]"
proof -
  have c: "census_get demo_world = Response 200 (Some demo_census)"
    by (simp add: demo_world_def)
  have d: "drop 1 demo_census =
     [map JStr [''10'', ''11'', ''20'', ''21'', ''30'', ''31'', ''32'', ''33'', ''26'', ''161'']]"
    by (simp add: demo_census_def)
  have f: "filter is_CensusGet (trace (snd (process_data demo_credentials demo_fips demo_world ''gkey''))) =
     [CensusGet ''https://census/acs5''
        \<lparr>p_get = ''B01001_003E,B01001_027E,B01001_004E,B01001_028E,B01001_005E,B01001_006E,B01001_029E,B01001_030E'',
         p_for = ''county:*'', p_in = ''state:26'', p_key = ''ckey''\<rparr>]"
    by (simp add: demo_run)
  from census_request_fixed [of demo_credentials demo_fips demo_world "''gkey''" demo_census "''26''"] c
  have "fst (fetch_census_data demo_credentials demo_world ''26'') = Inr (Some (drop 1 demo_census))"
    by blast
  with c d f show ?thesis by simp
qed

subsection \<open>A failed census request\<close>

text \<open>
  Claim C6. When the census endpoint answers with a status code other than 200, or with
  status 200 and a body that is not JSON, \<open>fetch_census_data\<close> prints the error and
  returns \<open>None\<close>; nothing is raised. A run of \<open>process_data\<close> whose provider stage
  returned then returns too, and the census file it writes is empty.
\<close>

theorem census_failure_tolerated:
  assumes "census_get w = Response status_code body"
    and "status_code \<noteq> 200 \<or> body = None"
  shows "fetch_census_data cr w state_fips =
           (Inr None,
            [census_request cr state_fips, Print (FetchingCensus state_fips),
             Print (if status_code = 200 then CensusDecodeError else CensusStatus status_code)]) \<and>
         (process_data_providers cr w api_key = (Inr df, s) \<longrightarrow>
            process_data cr fips_data w api_key =
              (Inr (),
               emit (save_events (strftime_now w) df [])
                 (emit (snd (fetch_census_data cr w STATE_FIPS)) s)) \<and>
            CensusToCsv (''processed_census_'' @ strftime_now w @ ''.csv'') [] \<in>
              set (trace (snd (process_data cr fips_data w api_key))))"
proof (intro conjI impI)
  show f: "fetch_census_data cr w state_fips =
           (Inr None,
            [census_request cr state_fips, Print (FetchingCensus state_fips),
             Print (if status_code = 200 then CensusDecodeError else CensusStatus status_code)])"
    for state_fips
    using assms by (auto simp: fetch_census_data_def)
  assume p: "process_data_providers cr w api_key = (Inr df, s)"
  have c: "process_data_census cr fips_data w = (Inr [], snd (fetch_census_data cr w STATE_FIPS))"
    using f [of STATE_FIPS] by (simp add: process_data_census_def)
  show r: "process_data cr fips_data w api_key =
              (Inr (),
               emit (save_events (strftime_now w) df [])
                 (emit (snd (fetch_census_data cr w STATE_FIPS)) s))"
    using p c by (simp add: process_data_def)
  show "CensusToCsv (''processed_census_'' @ strftime_now w @ ''.csv'') [] \<in>
              set (trace (snd (process_data cr fips_data w api_key)))"
    unfolding r by (simp add: emit_def save_events_def)
qed

lemma demo_providers_run:
  "process_data_providers demo_credentials demo_world_census_down ''gkey'' =
    (Inr \<lparr>columns = [''AddressLine1'', ''City'', ''ZipCode''],
          records = demo_providers,
          Full_Address = [''1 Main St, Ann Arbor, Michigan 48104'',
                          ''2 Oak Ave, Flint, Michigan 48502''],
          Latitude = [Some 42, None], Longitude = [Some (- 83), None]\<rparr>,
     \<lparr>globals = Some (''abc'', 4540), posts = 1, ticks = 2,
      trace =
        [TokenPost ''https://gs2q/token'' ''user'' ''pass'', TimeRead, TimeRead,
         DataGet ''https://gs2q/data'' ''abc'',
         GeocodeGet ''2 Oak Ave, Flint, Michigan 48502'' ''gkey'',
         GeocodeGet ''1 Main St, Ann Arbor, Michigan 48104'' ''gkey'',
         Print (GeocodeError ''1 Main St, Ann Arbor, Michigan 48104''
                  (RequestException ''timed out'')),
         Print (GeocodeFailed ''2 Oak Ave, Flint, Michigan 48502'' ''ZERO_RESULTS''),
         Sleep 1,
         GeocodeGet ''1 Main St, Ann Arbor, Michigan 48104'' ''gkey'',
         Print (Geocoded ''1 Main St, Ann Arbor, Michigan 48104'' 42 (- 83)),
         GeocodeGet ''2 Oak Ave, Flint, Michigan 48502'' ''gkey'',
         Print (GeocodeFailed ''2 Oak Ave, Flint, Michigan 48502'' ''ZERO_RESULTS''),
         GeocodeGet ''2 Oak Ave, Flint, Michigan 48502'' ''gkey'',
         Print (GeocodeFailed ''2 Oak Ave, Flint, Michigan 48502'' ''ZERO_RESULTS'')]\<rparr>)"
  by (simp add: demo_defs demo_world_census_down_def)

theorem census_failure_tolerated_witness:
  "census_get demo_world_census_down = Response 503 None \<and>
   fetch_census_data demo_credentials demo_world_census_down ''26'' =
     (Inr None,
      [census_request demo_credentials ''26'', Print (FetchingCensus ''26''),
       Print (CensusStatus 503)]) \<and>
   fst (process_data demo_credentials demo_fips demo_world_census_down ''gkey'') = Inr () \<and>
   CensusToCsv ''processed_census_20240101_120000.csv'' [] \<in>
     set (trace (snd (process_data demo_credentials demo_fips demo_world_census_down ''gkey'')))"
proof -
  have c: "census_get demo_world_census_down = Response 503 None"
    by (simp add: demo_world_census_down_def)
  have d: "(503 :: int) \<noteq> 200 \<or> (None :: census_row list option) = None"
    by simp
  have t: "''processed_census_'' @ strftime_now demo_world_census_down @ ''.csv'' =
      ''processed_census_20240101_120000.csv''"
    by (simp add: demo_world_census_down_def demo_world_def)
  obtain df s where
    p: "process_data_providers demo_credentials demo_world_census_down ''gkey'' = (Inr df, s)"
    using demo_providers_run by blast
  note th = census_failure_tolerated [OF c d, of demo_credentials "''26''" "''gkey''" df s demo_fips]
  have f: "fetch_census_data demo_credentials demo_world_census_down ''26'' =
     (Inr None,
      [census_request demo_credentials ''26'', Print (FetchingCensus ''26''),
       Print (if (503 :: int) = 200 then CensusDecodeError else CensusStatus 503)])"
    using th by (rule conjunct1)
  have r: "process_data demo_credentials demo_fips demo_world_census_down ''gkey'' =
      (Inr (),
       emit (save_events (strftime_now demo_world_census_down) df [])
         (emit (snd (fetch_census_data demo_credentials demo_world_census_down STATE_FIPS)) s)) \<and>
     CensusToCsv (''processed_census_'' @ strftime_now demo_world_census_down @ ''.csv'') [] \<in>
       set (trace (snd (process_data demo_credentials demo_fips demo_world_census_down ''gkey'')))"
    using th p by blast
  have ok: "fst (process_data demo_credentials demo_fips demo_world_census_down ''gkey'') = Inr ()"
    using r by simp
  have m: "CensusToCsv ''processed_census_20240101_120000.csv'' [] \<in>
     set (trace (snd (process_data demo_credentials demo_fips demo_world_census_down ''gkey'')))"
    using r unfolding t by (rule conjunct2)
  have f': "fetch_census_data demo_credentials demo_world_census_down ''26'' =
     (Inr None,
      [census_request demo_credentials ''26'', Print (FetchingCensus ''26''),
       Print (CensusStatus 503)])"
    using f by simp
  show ?thesis
    using c f' ok m by blast
qed

subsection \<open>The output files\<close>

lemma stage_not_5:
  "stage e \<noteq> 5 \<Longrightarrow> e \<noteq> Strftime \<and> \<not> is_ToCsv e"
  by (cases e) auto

text \<open>
  Claim C7. A run of \<open>process_data\<close> that returns has written exactly two files, the
  provider frame and then the census frame. The time stamp is read once, before both
  files and after everything else, and both file names carry it.
\<close>

theorem two_files_one_timestamp:
  assumes "process_data cr fips_data w api_key = (Inr (), s)"
  shows "\<exists>before df census_df.
           trace s =
             before @
             [Strftime,
              ProvidersToCsv (''processed_providers_'' @ strftime_now w @ ''.csv'') df,
              CensusToCsv (''processed_census_'' @ strftime_now w @ ''.csv'') census_df,
              Print (Complete (''processed_providers_'' @ strftime_now w @ ''.csv'')),
              Print (CensusSaved (''processed_census_'' @ strftime_now w @ ''.csv''))] \<and>
           (\<forall>e \<in> set before. e \<noteq> Strftime \<and> \<not> is_ToCsv e) \<and>
           filter is_ToCsv (trace s) =
             [ProvidersToCsv (''processed_providers_'' @ strftime_now w @ ''.csv'') df,
              CensusToCsv (''processed_census_'' @ strftime_now w @ ''.csv'') census_df]"
proof -
  from process_data_success [OF assms]
  obtain df sp census_df evs where
    p: "process_data_providers cr w api_key = (Inr df, sp)" and
    c: "process_data_census cr fips_data w = (Inr census_df, evs)" and
    tr: "trace s = trace sp @ evs @ save_events (strftime_now w) df census_df"
    by blast
  from process_data_providers_trace [OF p]
  obtain t1 t2 where sp: "trace sp = t1 @ t2" and s1: "\<forall>e \<in> set t1. stage e = 1"
    and s2: "\<forall>e \<in> set t2. stage e = 2"
    by blast
  from process_data_census_events [of cr fips_data w] c
  obtain evs' where e: "evs = census_request cr STATE_FIPS # evs'"
    and s34: "\<forall>e \<in> set evs'. stage e = 3 \<or> stage e = 4"
    by auto
  have "\<forall>e \<in> set (trace sp @ evs). stage e \<noteq> 5"
    using sp s1 s2 e s34 census_request_stage [of cr STATE_FIPS] by auto
  then have b: "\<forall>e \<in> set (trace sp @ evs). e \<noteq> Strftime \<and> \<not> is_ToCsv e"
    using stage_not_5 by blast
  then have fb: "filter is_ToCsv (trace sp @ evs) = []"
    unfolding filter_empty_conv by blast
  have t: "trace s = (trace sp @ evs) @ save_events (strftime_now w) df census_df"
    using tr by simp
  have f: "filter is_ToCsv (trace s) =
             [ProvidersToCsv (''processed_providers_'' @ strftime_now w @ ''.csv'') df,
              CensusToCsv (''processed_census_'' @ strftime_now w @ ''.csv'') census_df]"
    using fb by (simp add: t save_events_def)
  show ?thesis
    using t b f unfolding save_events_def
    by (intro exI [of _ "trace sp @ evs"] exI [of _ df] exI [of _ census_df]) blast
qed

theorem two_files_one_timestamp_witness:
  "fst (process_data demo_credentials demo_fips demo_world ''gkey'') = Inr () \<and>
   filter is_ToCsv (trace (snd (process_data demo_credentials demo_fips demo_world ''gkey''))) =
     [ProvidersToCsv ''processed_providers_20240101_120000.csv''
        \<lparr>columns = [''AddressLine1'', ''City'', ''ZipCode''],
         records = demo_providers,
         Full_Address = [''1 Main St, Ann Arbor, Michigan 48104'',
                         ''2 Oak Ave, Flint, Michigan 48502''],
         Latitude = [Some 42, None], Longitude = [Some (- 83), None]\<rparr>,
      CensusToCsv ''processed_census_20240101_120000.csv''
        [\<lparr>county = ''Unknown County'', city = ''Unknown City/Town'', children_0_3 = 21,
          children_3_5 = 41, children_6_11 = 126\<rparr>]] \<and>
   filter (\<lambda>e. e = Strftime)
     (trace (snd (process_data demo_credentials demo_fips demo_world ''gkey''))) = [Strftime]"
proof -
  have run: "process_data demo_credentials demo_fips demo_world ''gkey'' =
      (Inr (), snd (process_data demo_credentials demo_fips demo_world ''gkey''))"
    by (simp add: demo_run)
  from two_files_one_timestamp [OF run]
  obtain before df census_df where
    "filter is_ToCsv (trace (snd (process_data demo_credentials demo_fips demo_world ''gkey''))) =
       [ProvidersToCsv (''processed_providers_'' @ strftime_now demo_world @ ''.csv'') df,
        CensusToCsv (''processed_census_'' @ strftime_now demo_world @ ''.csv'') census_df]"
    by blast
  then show ?thesis
    by (simp add: demo_run)
qed

subsection \<open>Missing columns\<close>

lemma frame_columns_set:
  "set (frame_columns provider_data) = (\<Union>row \<in> set provider_data. fst ` set row)"
  by (auto simp: frame_columns_def)

lemma stage_1_no_geocode:
  "stage e = 1 \<Longrightarrow> \<not> is_GeocodeGet e \<and> \<not> is_ToCsv e"
  by (cases e) auto

text \<open>
  Claim C10. When the token and the provider records were fetched and the records lack
  one of the columns \<open>AddressLine1\<close>, \<open>City\<close>, \<open>ZipCode\<close> (no record has that key),
  \<open>process_data\<close> raises the \<open>ValueError\<close> that names the required columns the records
  lack, that column among them; up to then no geocoding request was sent and no file
  was written, and the run ends there.
\<close>

theorem missing_columns_raise:
  assumes "get_access_token cr w initial = (Inr g, s1)"
    and "fetch_data cr w (s1\<lparr>globals := Some g\<rparr>) = (Inr provider_data, s2)"
    and "c \<in> required_columns"
    and "\<forall>row \<in> set provider_data. c \<notin> fst ` set row"
  shows "process_data cr fips_data w api_key =
           (Inl (ValueError (MissingColumns
                   (required_columns - (\<Union>row \<in> set provider_data. fst ` set row)))), s2) \<and>
         c \<in> required_columns - (\<Union>row \<in> set provider_data. fst ` set row) \<and>
         (\<forall>e \<in> set (trace s2). \<not> is_GeocodeGet e \<and> \<not> is_ToCsv e)"
proof (intro conjI)
  have missing: "c \<notin> set (frame_columns provider_data)"
    using assms(4) by (simp add: frame_columns_set)
  then have "\<not> required_columns \<subseteq> set (frame_columns provider_data)"
    using assms(3) by blast
  then have "process_data_providers cr w api_key =
      (Inl (ValueError (MissingColumns (required_columns - set (frame_columns provider_data)))), s2)"
    using assms(1,2) by (simp add: process_data_providers_def)
  then show "process_data cr fips_data w api_key =
           (Inl (ValueError (MissingColumns
                   (required_columns - (\<Union>row \<in> set provider_data. fst ` set row)))), s2)"
    by (simp add: process_data_def frame_columns_set)
  show "c \<in> required_columns - (\<Union>row \<in> set provider_data. fst ` set row)"
    using assms(3,4) by blast
  from get_access_token_trace [OF assms(1)]
  obtain e1 where e1: "trace s1 = e1" "\<forall>e \<in> set e1. stage e = 1"
    by (auto simp: initial_def)
  from fetch_data_trace [OF assms(2)]
  obtain e2 where e2: "trace s2 = e1 @ e2" "\<forall>e \<in> set e2. stage e = 1"
    using e1(1) by auto
  have "\<forall>e \<in> set (trace s2). stage e = 1"
    using e1(2) e2 by auto
  then show "\<forall>e \<in> set (trace s2). \<not> is_GeocodeGet e \<and> \<not> is_ToCsv e"
    using stage_1_no_geocode by blast
qed

theorem missing_columns_raise_witness:
  "get_access_token demo_credentials demo_world_no_city initial =
     (Inr (''abc'', 4540),
      \<lparr>globals = None, posts = 1, ticks = 1,
       trace = [TokenPost ''https://gs2q/token'' ''user'' ''pass'', TimeRead]\<rparr>) \<and>
   fetch_data demo_credentials demo_world_no_city
     \<lparr>globals = Some (''abc'', 4540), posts = 1, ticks = 1,
      trace = [TokenPost ''https://gs2q/token'' ''user'' ''pass'', TimeRead]\<rparr> =
     (Inr [[(''AddressLine1'', ''1 Main St''), (''ZipCode'', ''48104'')]],
      \<lparr>globals = Some (''abc'', 4540), posts = 1, ticks = 2,
       trace = [TokenPost ''https://gs2q/token'' ''user'' ''pass'', TimeRead, TimeRead,
                DataGet ''https://gs2q/data'' ''abc'']\<rparr>) \<and>
   ''City'' \<in> required_columns \<and>
   process_data demo_credentials demo_fips demo_world_no_city ''gkey'' =
     (Inl (ValueError (MissingColumns {''City''})),
      \<lparr>globals = Some (''abc'', 4540), posts = 1, ticks = 2,
       trace = [TokenPost ''https://gs2q/token'' ''user'' ''pass'', TimeRead, TimeRead,
                DataGet ''https://gs2q/data'' ''abc'']\<rparr>)"
proof -
  let ?s1 = "\<lparr>globals = None, posts = 1, ticks = 1,
       trace = [TokenPost ''https://gs2q/token'' ''user'' ''pass'', TimeRead]\<rparr>"
  let ?s2 = "\<lparr>globals = Some (''abc'', 4540 :: real), posts = 1, ticks = 2,
       trace = [TokenPost ''https://gs2q/token'' ''user'' ''pass'', TimeRead, TimeRead,
                DataGet ''https://gs2q/data'' ''abc'']\<rparr>"
  let ?pd = "[[(''AddressLine1'', ''1 Main St''), (''ZipCode'', ''48104'')]]"
  have a: "get_access_token demo_credentials demo_world_no_city initial =
      (Inr (''abc'', 4540), ?s1)"
    by (simp add: get_access_token_def initial_def emit_def raises_for_status_def
        demo_world_no_city_def demo_world_def demo_credentials_def)
  have b: "fetch_data demo_credentials demo_world_no_city (?s1\<lparr>globals := Some (''abc'', 4540)\<rparr>) =
      (Inr ?pd, ?s2)"
    by (simp add: fetch_data_def get_valid_access_token_def emit_def raises_for_status_def
        demo_world_no_city_def demo_world_def demo_credentials_def)
  have c: "''City'' \<in> required_columns"
    by (simp add: required_columns_def)
  have d: "\<forall>row \<in> set ?pd. ''City'' \<notin> fst ` set row"
    by simp
  have m: "required_columns - (\<Union>row \<in> set ?pd. fst ` set row) = {''City''}"
    by (auto simp: required_columns_def)
  note th = missing_columns_raise [OF a b c d, of demo_fips "''gkey''"]
  have "process_data demo_credentials demo_fips demo_world_no_city ''gkey'' =
     (Inl (ValueError (MissingColumns {''City''})), ?s2)"
    using th unfolding m by (rule conjunct1)
  moreover have "fetch_data demo_credentials demo_world_no_city
     \<lparr>globals = Some (''abc'', 4540), posts = 1, ticks = 1,
      trace = [TokenPost ''https://gs2q/token'' ''user'' ''pass'', TimeRead]\<rparr> = (Inr ?pd, ?s2)"
    using b by simp
  ultimately show ?thesis
    using a c by blast
qed

subsection \<open>The names of a census row\<close>

text \<open>
  Claim C2 says that a census row is joined to the county name of the county code it
  carries and to the place name of the place code it carries. The request of
  \<open>fetch_census_data\<close> asks for every county of one state, and the rows of such a body
  end in the state code and the county code, as its header row says. For such a row
  \<open>process_census_data_with_names\<close> looks the state code up as county code and the
  county code as place code. Here the table has the entry of county 161, and the row
  of county 161 is joined to \<open>Unknown County\<close> and \<open>Unknown City/Town\<close>.
\<close>

theorem census_row_state_as_county:
  "census_get demo_world =
     Response 200
       (Some [[JStr ''B01001_003E'', JStr ''B01001_027E'', JStr ''B01001_004E'',
               JStr ''B01001_028E'', JStr ''B01001_005E'', JStr ''B01001_006E'',
               JStr ''B01001_029E'', JStr ''B01001_030E'', JStr ''state'', JStr ''county''],
              [JStr ''10'', JStr ''11'', JStr ''20'', JStr ''21'', JStr ''30'', JStr ''31'',
               JStr ''32'', JStr ''33'', JStr ''26'', JStr ''161'']]) \<and>
   get_county_name_from_fips STATE_FIPS (JStr ''161'') demo_fips = ''Washtenaw County'' \<and>
   process_census_data_with_names demo_world
     [JStr ''10'', JStr ''11'', JStr ''20'', JStr ''21'', JStr ''30'', JStr ''31'',
      JStr ''32'', JStr ''33'', JStr ''26'', JStr ''161''] demo_fips =
     (Inr (''Unknown County'', ''Unknown City/Town'', 21, 41, 126),
      [Print (ProcessedCensus ''Unknown County'' ''Unknown City/Town'' 21 41 126)]) \<and>
   fst (process_data_census demo_credentials demo_fips demo_world) =
     Inr [\<lparr>county = ''Unknown County'', city = ''Unknown City/Town'', children_0_3 = 21,
           children_3_5 = 41, children_6_11 = 126\<rparr>]"
  by (simp add: demo_world_def demo_census_def demo_fips_def STATE_FIPS_def
      process_data_census_def fetch_census_data_def
      process_census_data_with_names_def census_names_def get_item_def int_of_cell_def
      py_int_def int_space_def py_nat_def is_digit_def digit_def)

end
